theory Spec2Isabelle
  imports Complex_Main "HOL-Library.Multiset"
begin

section \<open>Values of the program\<close>

text \<open>
  The program is one Python module, \<^verbatim>\<open>app.py\<close>: a Dash application whose callbacks
  read a catalogue loaded once from a spreadsheet and append order lines to the
  worksheet \<^verbatim>\<open>Submissions\<close>.  The callbacks are embedded as functions of their
  arguments, of the catalogue and of the state of the outside world they touch
  (the identifier generator, the clock and the worksheet).

  Numbers.  A quantity is what a number input holds: an integer, or \<open>None\<close> when the
  input is blank.  A price is the number written in a cell of the catalogue sheet,
  a rational: a whole number is an \<^verbatim>\<open>int\<close> of Python, any other number a \<^verbatim>\<open>float\<close>, the
  double nearest to it.  The recomputation of the totals converts every price with
  \<^verbatim>\<open>float()\<close> and works in binary floating point; it is embedded with the doubles
  and their rounding below.  The submission multiplies the price as it is; its
  amounts are embedded as exact rationals, which is what the program computes for
  a whole price (the integers of Python are unbounded).

  Strings are byte lists; the few characters outside ASCII that the program prints
  are written as their UTF-8 bytes.
\<close>

datatype error = TypeError | IndexError | ValueError | OverflowError | WorksheetNotFound | APIError

text \<open>
  A row of the \<^verbatim>\<open>Products\<close> sheet, as \<^verbatim>\<open>get_all_records\<close> returns it: the keys
  \<^verbatim>\<open>"Product name"\<close>, \<^verbatim>\<open>"Category"\<close> and \<^verbatim>\<open>"Price"\<close>.  \<open>p_price\<close> is \<open>None\<close> when the
  row has no entry \<^verbatim>\<open>"Price"\<close>.
\<close>

record product =
  p_name :: string
  p_category :: string
  p_price :: "rat option"

text \<open>A row of the \<^verbatim>\<open>Retailers\<close> sheet.\<close>

record retailer =
  r_name :: string
  r_salesperson :: string
  r_team :: string
  r_email :: string

text \<open>
  The dictionary \<^verbatim>\<open>submit_data\<close> builds for one product, with the keys in the order
  of insertion.  \<^verbatim>\<open>append_row(list(data.values()))\<close> writes these twelve values, in
  this order, as one row of the worksheet.
\<close>

record submission =
  Unique_ID :: string
  Retailer :: string
  Salesperson :: string
  Team :: string
  Email :: string
  Category :: string
  Product :: string
  Quantity :: int
  Amount :: rat
  Latitude :: string
  Longitude :: string
  Timestamp :: string

text \<open>
  The \<^verbatim>\<open>children\<close> property of the \<^verbatim>\<open>salesperson-info\<close> division: a string, or a list
  of paragraphs, each given by the string that is its own \<^verbatim>\<open>children\<close>.
\<close>

datatype children = Text string | Elems "string list"


text \<open>
  The outside world.  \<open>env\<close> holds what the program reads and cannot change: the two
  catalogue sheets, and the answers of the outside to each call, numbered from 0 in
  the order of the calls (the k-th identifier \<^verbatim>\<open>str(uuid.uuid4())\<close>, the k-th reading
  \<^verbatim>\<open>datetime.datetime.now().isoformat()\<close>, whether the k-th \<^verbatim>\<open>append_row\<close> raises,
  whether looking the worksheet up raises).  \<open>world\<close> is the state the calls change:
  how many calls were made, and the rows of the worksheet.  A call of \<^verbatim>\<open>append_row\<close>
  that raises is taken to leave the rows as they were.
\<close>

record env =
  retailers_data :: "retailer list"
  products_data :: "product list"
  uuid4 :: "nat \<Rightarrow> string"
  now_isoformat :: "nat \<Rightarrow> string"
  append_raises :: "nat \<Rightarrow> bool"
  worksheet_raises :: bool

record world =
  uuid_calls :: nat
  clock_calls :: nat
  append_calls :: nat
  sheet_rows :: "submission list"

section \<open>Python primitives\<close>

text \<open>Truth value of an optional string and of an optional integer (\<^verbatim>\<open>not x\<close>).\<close>

definition truthy_str :: "string option \<Rightarrow> bool" where
  "truthy_str v = (case v of None \<Rightarrow> False | Some s \<Rightarrow> s \<noteq> [])"

definition truthy_int :: "int option \<Rightarrow> bool" where
  "truthy_int v = (case v of None \<Rightarrow> False | Some n \<Rightarrow> n \<noteq> 0)"

text \<open>
  \<^verbatim>\<open>s.split(sep)\<close> for the separator \<open>c # cs\<close> (never empty): the pieces between the
  occurrences of the separator, found from the left and not overlapping.
\<close>

fun split_on :: "char \<Rightarrow> string \<Rightarrow> string \<Rightarrow> string list" where
  "split_on c cs [] = [[]]"
| "split_on c cs (x # xs) =
     (if take (Suc (length cs)) (x # xs) = c # cs
      then [] # split_on c cs (drop (length cs) xs)
      else (case split_on c cs xs of
              [] \<Rightarrow> [[x]]
            | piece # pieces \<Rightarrow> (x # piece) # pieces))"

text \<open>
  A \<^verbatim>\<open>float\<close> of Python is a double of IEEE 754: a finite number given by its sign
  (\<open>True\<close> for minus) and its magnitude, so that there are two zeros; an infinity
  with its sign; or not a number.
\<close>

datatype double = Finite bool rat | Infinity bool | NaN

text \<open>The nearest integer, a tie going to the even one.\<close>

definition round_half_even :: "rat \<Rightarrow> int" where
  "round_half_even x =
     (let f = \<lfloor>x\<rfloor>; d = x - of_int f
      in if d < 1 / 2 then f
         else if 1 / 2 < d then f + 1
         else if even f then f else f + 1)"

text \<open>
  Rounding a magnitude to 53 significant bits, to the nearest and a tie to even.
  A magnitude of \<open>2 ^ 52\<close> or more is halved until it is below \<open>2 ^ 53\<close> (at most 971
  times, the largest exponent of a double), a smaller one is doubled until it
  reaches \<open>2 ^ 52\<close> (at most 1074 times, the smallest exponent, that of the
  subnormal numbers); the scaled magnitude is rounded to an integer and scaled
  back.  A result of \<open>2 ^ 1024\<close> or more is an infinity.
\<close>

fun scale_down :: "nat \<Rightarrow> rat \<Rightarrow> nat" where
  "scale_down fuel x =
     (if fuel = 0 \<or> x < 9007199254740992 then 0 else Suc (scale_down (fuel - 1) (x / 2)))"

fun scale_up :: "nat \<Rightarrow> rat \<Rightarrow> nat" where
  "scale_up fuel x =
     (if fuel = 0 \<or> 4503599627370496 \<le> x then 0 else Suc (scale_up (fuel - 1) (x * 2)))"

declare scale_down.simps [simp del] scale_up.simps [simp del]

definition round_magnitude :: "rat \<Rightarrow> rat" where
  "round_magnitude x =
     (if 4503599627370496 \<le> x
      then (let e = scale_down 971 x in of_int (round_half_even (x / 2 ^ e)) * 2 ^ e)
      else (let k = scale_up 1074 x in of_int (round_half_even (x * 2 ^ k)) / 2 ^ k))"

definition round_double :: "bool \<Rightarrow> rat \<Rightarrow> double" where
  "round_double s x =
     (let r = round_magnitude x in if 2 ^ 1024 \<le> r then Infinity s else Finite s r)"

definition double_of_rat :: "rat \<Rightarrow> double" where
  "double_of_rat x = round_double (x < 0) \<bar>x\<bar>"

text \<open>
  The conversion of an \<^verbatim>\<open>int\<close> to a \<^verbatim>\<open>float\<close>, explicit in \<^verbatim>\<open>float(n)\<close> and implicit when
  a \<^verbatim>\<open>float\<close> is multiplied by an \<^verbatim>\<open>int\<close>: the nearest double, and \<^verbatim>\<open>OverflowError\<close>
  when that is beyond the largest.  \<^verbatim>\<open>float(x)\<close> of a number of the sheet: a whole
  number is an \<^verbatim>\<open>int\<close>, any other is a \<^verbatim>\<open>float\<close> already.
\<close>

definition float_of_int :: "int \<Rightarrow> error + double" where
  "float_of_int n =
     (case double_of_rat (of_int n) of
        Infinity s \<Rightarrow> Inl OverflowError
      | d \<Rightarrow> Inr d)"

definition float_of_number :: "rat \<Rightarrow> error + double" where
  "float_of_number x =
     (if of_int \<lfloor>x\<rfloor> = x then float_of_int \<lfloor>x\<rfloor> else Inr (double_of_rat x))"

text \<open>The product and the sum of two doubles.\<close>

definition float_mul :: "double \<Rightarrow> double \<Rightarrow> double" where
  "float_mul a b =
     (case (a, b) of
        (Finite s x, Finite t y) \<Rightarrow> round_double (s \<noteq> t) (x * y)
      | (Finite s x, Infinity t) \<Rightarrow> (if x = 0 then NaN else Infinity (s \<noteq> t))
      | (Infinity s, Finite t y) \<Rightarrow> (if y = 0 then NaN else Infinity (s \<noteq> t))
      | (Infinity s, Infinity t) \<Rightarrow> Infinity (s \<noteq> t)
      | _ \<Rightarrow> NaN)"

definition float_add :: "double \<Rightarrow> double \<Rightarrow> double" where
  "float_add a b =
     (case (a, b) of
        (Finite s x, Finite t y) \<Rightarrow>
          (let v = (if s then - x else x) + (if t then - y else y)
           in if v = 0 then Finite (s \<and> t) 0 else round_double (v < 0) \<bar>v\<bar>)
      | (Finite s x, Infinity t) \<Rightarrow> Infinity t
      | (Infinity s, Finite t y) \<Rightarrow> Infinity s
      | (Infinity s, Infinity t) \<Rightarrow> (if s = t then Infinity s else NaN)
      | _ \<Rightarrow> NaN)"


text \<open>
  \<^verbatim>\<open>f"{x:.2f}"\<close> of a double: the sign, the whole part in decimal digits, a point and
  two decimals, the magnitude rounded to the nearest hundredth (a tie to the even
  one).
\<close>

definition digit_char :: "nat \<Rightarrow> char" where
  "digit_char d = ''0123456789'' ! d"

fun show_nat :: "nat \<Rightarrow> string" where
  "show_nat n = (if n < 10 then [digit_char n] else show_nat (n div 10) @ [digit_char (n mod 10)])"

declare show_nat.simps [simp del]

definition format_2f :: "double \<Rightarrow> string" where
  "format_2f d =
     (case d of
        Finite s x \<Rightarrow>
          (let c = nat (round_half_even (x * 100))
           in (if s then ''-'' else '''') @ show_nat (c div 100) @ ''.''
                @ [digit_char (c div 10 mod 10), digit_char (c mod 10)])
      | Infinity s \<Rightarrow> (if s then ''-inf'' else ''inf'')
      | NaN \<Rightarrow> ''nan'')"

definition rupee :: string where
  "rupee = [CHR 0xE2, CHR 0x82, CHR 0xB9]"

definition warning_sign :: string where
  "warning_sign = [CHR 0xE2, CHR 0x9A, CHR 0xA0, CHR 0xEF, CHR 0xB8, CHR 0x8F]"

definition check_mark :: string where
  "check_mark = [CHR 0xE2, CHR 0x9C, CHR 0x85]"

definition cross_mark :: string where
  "cross_mark = [CHR 0xE2, CHR 0x9D, CHR 0x8C]"

definition bust :: string where
  "bust = [CHR 0xF0, CHR 0x9F, CHR 0x91, CHR 0xA4]"

definition loudspeaker :: string where
  "loudspeaker = [CHR 0xF0, CHR 0x9F, CHR 0x93, CHR 0xA2]"

definition envelope :: string where
  "envelope = [CHR 0xF0, CHR 0x9F, CHR 0x93, CHR 0xA7]"

section \<open>The callbacks that render the form\<close>

text \<open>
  Lines 118 and 192, the same comprehension in both callbacks: the products of the
  catalogue whose category is the selected one, in the order of the sheet.
\<close>

definition filtered_products :: "product list \<Rightarrow> string \<Rightarrow> product list" where
  "filtered_products products selected_category =
     filter (\<lambda>p. p_category p = selected_category) products"

text \<open>\<^verbatim>\<open>update_salesperson_info(selected_retailer)\<close>, lines 94 to 106.\<close>

definition update_salesperson_info :: "retailer list \<Rightarrow> string option \<Rightarrow> children" where
  "update_salesperson_info retailers selected_retailer =
     (if \<not> truthy_str selected_retailer then Text ''Please select a retailer.''
      else (case find (\<lambda>r. r_name r = the selected_retailer) retailers of
              None \<Rightarrow> Text ''Retailer not found.''
            | Some salesperson_info \<Rightarrow>
                Elems [bust @ '' Salesperson: '' @ r_salesperson salesperson_info,
                       loudspeaker @ '' Team: '' @ r_team salesperson_info,
                       envelope @ '' Email: '' @ r_email salesperson_info]))"


section \<open>Recomputing the totals\<close>

text \<open>
  Line 162, for a product that was found: \<^verbatim>\<open>float(product_info.get("Price", 0))\<close>.
\<close>

definition float_price :: "product \<Rightarrow> error + double" where
  "float_price product_info =
     float_of_number (case p_price product_info of None \<Rightarrow> 0 | Some price \<Rightarrow> price)"

text \<open>Lines 157 and 158: a blank input counts as the quantity 0.\<close>

definition entered :: "int option \<Rightarrow> int" where
  "entered quantity = (case quantity of None \<Rightarrow> 0 | Some q \<Rightarrow> q)"

text \<open>
  Lines 157 to 163, the amount of one line: the product is the first of the whole
  catalogue that has the name; its price as a float is multiplied by the quantity,
  converted to a float for that.  When no product has the name the price is the
  integer 0 and so is the amount; it is printed, and added to the total, as the
  positive zero is.
\<close>

definition line_amount :: "product list \<Rightarrow> int option \<Rightarrow> string \<Rightarrow> error + double" where
  "line_amount products quantity product_id =
     (let quantity = entered quantity
      in case find (\<lambda>p. p_name p = product_id) products of
           None \<Rightarrow> Inr (Finite False 0)
         | Some product_info \<Rightarrow>
             (case float_price product_info of
                Inl e \<Rightarrow> Inl e
              | Inr price \<Rightarrow>
                  (case float_of_int quantity of
                     Inl e \<Rightarrow> Inl e
                   | Inr q \<Rightarrow> Inr (float_mul price q))))"

text \<open>
  The loop of lines 156 to 166, from index \<open>idx\<close> on, with its two accumulators.
  \<^verbatim>\<open>ids[idx]\<close> raises when the identifiers are fewer than the quantities.
\<close>

fun total_loop ::
  "product list \<Rightarrow> string list \<Rightarrow> nat \<Rightarrow> int option list \<Rightarrow> string list \<Rightarrow> double
     \<Rightarrow> error + string list \<times> double" where
  "total_loop products ids idx [] total_values category_total =
     Inr (total_values, category_total)"
| "total_loop products ids idx (quantity # rest) total_values category_total =
     (if idx < length ids
      then (case line_amount products quantity (ids ! idx) of
              Inl e \<Rightarrow> Inl e
            | Inr total_amount \<Rightarrow>
                total_loop products ids (Suc idx) rest
                  (total_values @ [rupee @ format_2f total_amount])
                  (float_add category_total total_amount))
      else Inl IndexError)"

text \<open>\<^verbatim>\<open>update_total_amount(quantities, ids)\<close>, lines 149 to 168.\<close>

definition update_total_amount ::
  "product list \<Rightarrow> int option list \<Rightarrow> string list \<Rightarrow> error + string list \<times> string" where
  "update_total_amount products quantities ids =
     (if quantities = []
      then Inr (replicate (length ids) (rupee @ ''0.00''), ''Total Value: '' @ rupee @ ''0.00'')
      else (case total_loop products ids 0 quantities [] (Finite False 0) of
              Inl e \<Rightarrow> Inl e
            | Inr (total_values, category_total) \<Rightarrow>
                Inr (total_values, ''Total Value: '' @ rupee @ format_2f category_total)))"

text \<open>
  The form keeps one value per input.  An edit replaces the value of the input at
  one position; a sequence of edits is applied from the left.
\<close>

definition apply_edits :: "(nat \<times> int option) list \<Rightarrow> int option list \<Rightarrow> int option list" where
  "apply_edits edits quantities = foldl (\<lambda>qs (i, q). qs[i := q]) quantities edits"

section \<open>Submitting\<close>

text \<open>
  Lines 187 to 189: \<^verbatim>\<open>salesperson_info[i]["props"]["children"].split(": ")[1]\<close>.
  Indexing a string gives a string of one character, and indexing that one by the
  key \<^verbatim>\<open>"props"\<close> raises \<^verbatim>\<open>TypeError\<close>.
\<close>

definition paragraph_text :: "children \<Rightarrow> nat \<Rightarrow> error + string" where
  "paragraph_text c i =
     (case c of
        Text s \<Rightarrow> (if i < length s then Inl TypeError else Inl IndexError)
      | Elems ps \<Rightarrow> (if i < length ps then Inr (ps ! i) else Inl IndexError))"

definition field_value :: "string \<Rightarrow> error + string" where
  "field_value s =
     (case split_on CHR '':'' '' '' s of
        _ # v # _ \<Rightarrow> Inr v
      | _ \<Rightarrow> Inl IndexError)"

definition parse_field :: "children \<Rightarrow> nat \<Rightarrow> error + string" where
  "parse_field c i = (case paragraph_text c i of Inl e \<Rightarrow> Inl e | Inr s \<Rightarrow> field_value s)"

definition parse_salesperson_info :: "children \<Rightarrow> error + string \<times> string \<times> string" where
  "parse_salesperson_info c =
     (case parse_field c 0 of
        Inl e \<Rightarrow> Inl e
      | Inr salesperson \<Rightarrow>
          (case parse_field c 1 of
             Inl e \<Rightarrow> Inl e
           | Inr team \<Rightarrow>
               (case parse_field c 2 of
                  Inl e \<Rightarrow> Inl e
                | Inr email \<Rightarrow> Inr (salesperson, team, email))))"

text \<open>
  Lines 195 to 198.  Unpacking into two names raises \<^verbatim>\<open>ValueError\<close> unless the split
  has exactly two pieces.
\<close>

definition parse_geolocation :: "string option \<Rightarrow> error + string \<times> string" where
  "parse_geolocation geolocation =
     (if truthy_str geolocation
      then (case split_on CHR '','' [] (the geolocation) of
              [latitude, longitude] \<Rightarrow> Inr (latitude, longitude)
            | _ \<Rightarrow> Inl ValueError)
      else Inr (''0'', ''0''))"

text \<open>
  Line 204: the quantity entered at position \<open>idx\<close>, 0 when the list of values is too
  short or holds \<open>None\<close> there.  Line 205: the price of the product, 0 when it has
  none.
\<close>

definition quantity_at :: "int option list \<Rightarrow> nat \<Rightarrow> int" where
  "quantity_at input_values idx =
     (if idx < length input_values \<and> input_values ! idx \<noteq> None
      then the (input_values ! idx) else 0)"

definition price_of :: "product \<Rightarrow> rat" where
  "price_of product = (case p_price product of None \<Rightarrow> 0 | Some v \<Rightarrow> v)"

text \<open>
  The loop of lines 202 to 222 over the products of the category, from index \<open>idx\<close>
  on.  Each turn draws one identifier and reads the clock once.
\<close>

fun build_loop ::
  "env \<Rightarrow> string \<Rightarrow> string \<Rightarrow> string \<Rightarrow> string \<Rightarrow> string \<Rightarrow> int option list
     \<Rightarrow> string \<Rightarrow> string \<Rightarrow> nat \<Rightarrow> product list \<Rightarrow> world \<Rightarrow> submission list \<times> world" where
  "build_loop e selected_retailer salesperson team email selected_category input_values
     latitude longitude idx [] w = ([], w)"
| "build_loop e selected_retailer salesperson team email selected_category input_values
     latitude longitude idx (product # rest) w =
     (let product_name = p_name product;
          quantity = quantity_at input_values idx;
          price = price_of product;
          amount = price * of_int quantity;
          unique_id = uuid4 e (uuid_calls w);
          w1 = w\<lparr>uuid_calls := Suc (uuid_calls w)\<rparr>;
          timestamp = now_isoformat e (clock_calls w1);
          w2 = w1\<lparr>clock_calls := Suc (clock_calls w1)\<rparr>;
          data = \<lparr>Unique_ID = unique_id, Retailer = selected_retailer,
                  Salesperson = salesperson, Team = team, Email = email,
                  Category = selected_category, Product = product_name,
                  Quantity = quantity, Amount = amount,
                  Latitude = latitude, Longitude = longitude, Timestamp = timestamp\<rparr>;
          (submission_data, w3) =
             build_loop e selected_retailer salesperson team email selected_category
               input_values latitude longitude (Suc idx) rest w2
      in (data # submission_data, w3))"

text \<open>
  The loop of lines 225 and 226.  The first call of \<^verbatim>\<open>append_row\<close> that raises ends
  it: the rows after that one are never sent.
\<close>

fun append_loop :: "env \<Rightarrow> submission list \<Rightarrow> world \<Rightarrow> error option \<times> world" where
  "append_loop e [] w = (None, w)"
| "append_loop e (data # rest) w =
     (if append_raises e (append_calls w)
      then (Some APIError, w\<lparr>append_calls := Suc (append_calls w)\<rparr>)
      else append_loop e rest
             (w\<lparr>append_calls := Suc (append_calls w), sheet_rows := sheet_rows w @ [data]\<rparr>))"

text \<open>
  Lines 187 to 222, the part of the \<^verbatim>\<open>try\<close> block that builds \<^verbatim>\<open>submission_data\<close>, for
  a retailer and a category that passed the test of line 183: the exception that
  ends it, or the records built and the world after the draws.
\<close>

definition build_submission ::
  "env \<Rightarrow> world \<Rightarrow> string \<Rightarrow> string \<Rightarrow> children \<Rightarrow> int option list \<Rightarrow> string option
     \<Rightarrow> error + submission list \<times> world" where
  "build_submission e w selected_retailer selected_category salesperson_info input_values
     geolocation =
     (case parse_salesperson_info salesperson_info of
        Inl err \<Rightarrow> Inl err
      | Inr (salesperson, team, email) \<Rightarrow>
          (let filtered = filtered_products (products_data e) selected_category
           in case parse_geolocation geolocation of
                Inl err \<Rightarrow> Inl err
              | Inr (latitude, longitude) \<Rightarrow>
                  Inr (build_loop e selected_retailer salesperson team email selected_category
                         input_values latitude longitude 0 filtered w)))"

text \<open>
  The whole \<^verbatim>\<open>try\<close> block, lines 187 to 228: the exception it ends with, if any,
  and the world it leaves.
\<close>

definition try_submit ::
  "env \<Rightarrow> world \<Rightarrow> string \<Rightarrow> string \<Rightarrow> children \<Rightarrow> int option list \<Rightarrow> string option
     \<Rightarrow> error option \<times> world" where
  "try_submit e w selected_retailer selected_category salesperson_info input_values geolocation =
     (case build_submission e w selected_retailer selected_category salesperson_info
             input_values geolocation of
        Inl err \<Rightarrow> (Some err, w)
      | Inr (submission_data, w1) \<Rightarrow>
          (if worksheet_raises e then (Some WorksheetNotFound, w1)
           else append_loop e submission_data w1))"

definition msg_incomplete :: string where
  "msg_incomplete = warning_sign @ '' Please complete all fields before submitting.''"

definition msg_error :: string where
  "msg_error = cross_mark @ '' An error occurred while submitting. Please try again.''"

definition msg_success :: "string \<Rightarrow> string \<Rightarrow> string" where
  "msg_success selected_category selected_retailer =
     check_mark @ '' Data submitted successfully for '' @ selected_category @ '' in ''
       @ selected_retailer @ ''.''"

text \<open>
  \<^verbatim>\<open>submit_data\<close>, lines 182 to 232: the pair it returns (the status text, and whether
  the confirmation dialog is displayed) and the world it leaves.
\<close>

definition submit_data ::
  "env \<Rightarrow> world \<Rightarrow> int option \<Rightarrow> string option \<Rightarrow> string option \<Rightarrow> children
     \<Rightarrow> int option list \<Rightarrow> string option \<Rightarrow> (string \<times> bool) \<times> world" where
  "submit_data e w n_clicks selected_retailer selected_category salesperson_info input_values
     geolocation =
     (if \<not> truthy_int n_clicks \<or> \<not> truthy_str selected_retailer \<or> \<not> truthy_str selected_category
      then ((msg_incomplete, False), w)
      else (case try_submit e w (the selected_retailer) (the selected_category) salesperson_info
                   input_values geolocation of
              (None, w') \<Rightarrow>
                ((msg_success (the selected_category) (the selected_retailer), True), w')
            | (Some err, w') \<Rightarrow> ((msg_error, False), w')))"

text \<open>The rows that a call added to the worksheet.\<close>

definition new_rows :: "world \<Rightarrow> world \<Rightarrow> submission list" where
  "new_rows w w' = drop (length (sheet_rows w)) (sheet_rows w')"

section \<open>A small catalogue\<close>

text \<open>
  The catalogue of the examples: two snacks and one product of another category,
  two retailers (the second has no salesperson name), an outside world whose
  identifiers and clock readings are all different and whose worksheet accepts
  every row, and one whose second \<^verbatim>\<open>append_row\<close> raises.
\<close>

definition chips :: product where
  "chips = \<lparr>p_name = ''Chips'', p_category = ''Snacks'', p_price = Some 20\<rparr>"

definition cola :: product where
  "cola = \<lparr>p_name = ''Cola'', p_category = ''Snacks'', p_price = Some 15\<rparr>"

definition soap :: product where
  "soap = \<lparr>p_name = ''Soap'', p_category = ''Care'', p_price = Some 30\<rparr>"

text \<open>A product priced at half a cent, and one priced at 1.\<close>

definition toffee :: product where
  "toffee = \<lparr>p_name = ''Toffee'', p_category = ''Sweets'', p_price = Some (1 / 200)\<rparr>"


definition corner_shop :: retailer where
  "corner_shop = \<lparr>r_name = ''Corner Shop'', r_salesperson = ''Asha'', r_team = ''North'',
     r_email = ''asha@example.com''\<rparr>"

definition kiosk :: retailer where
  "kiosk = \<lparr>r_name = ''Kiosk'', r_salesperson = [], r_team = ''South'',
     r_email = ''south@example.com''\<rparr>"

fun demo_uuid :: "nat \<Rightarrow> string" where
  "demo_uuid k = replicate (Suc k) CHR ''u''"

fun demo_clock :: "nat \<Rightarrow> string" where
  "demo_clock k = ''2024-01-01T10:00:00.'' @ replicate (Suc k) CHR ''1''"

fun never :: "nat \<Rightarrow> bool" where
  "never k = False"

fun at_second :: "nat \<Rightarrow> bool" where
  "at_second k = (k = 1)"

definition demo_env :: env where
  "demo_env = \<lparr>retailers_data = [corner_shop, kiosk], products_data = [chips, soap, cola],
     uuid4 = demo_uuid, now_isoformat = demo_clock, append_raises = never,
     worksheet_raises = False\<rparr>"

definition failing_env :: env where
  "failing_env = \<lparr>retailers_data = [corner_shop, kiosk], products_data = [chips, soap, cola],
     uuid4 = demo_uuid, now_isoformat = demo_clock, append_raises = at_second,
     worksheet_raises = False\<rparr>"

definition demo_world :: world where
  "demo_world = \<lparr>uuid_calls = 0, clock_calls = 0, append_calls = 0, sheet_rows = []\<rparr>"

text \<open>The two records of the example order: three packets of chips, no cola.\<close>

definition demo_rows :: "submission list" where
  "demo_rows =
     [\<lparr>Unique_ID = ''u'', Retailer = ''Corner Shop'', Salesperson = ''Asha'', Team = ''North'',
       Email = ''asha@example.com'', Category = ''Snacks'', Product = ''Chips'', Quantity = 3,
       Amount = 60, Latitude = ''0'', Longitude = ''0'',
       Timestamp = ''2024-01-01T10:00:00.1''\<rparr>,
      \<lparr>Unique_ID = ''uu'', Retailer = ''Corner Shop'', Salesperson = ''Asha'', Team = ''North'',
       Email = ''asha@example.com'', Category = ''Snacks'', Product = ''Cola'', Quantity = 0,
       Amount = 0, Latitude = ''0'', Longitude = ''0'',
       Timestamp = ''2024-01-01T10:00:00.11''\<rparr>]"

text \<open>The two records of a second order, with a geolocation: three packets of chips, two colas.\<close>

definition failing_rows :: "submission list" where
  "failing_rows =
     [\<lparr>Unique_ID = ''u'', Retailer = ''Corner Shop'', Salesperson = ''Asha'', Team = ''North'',
       Email = ''asha@example.com'', Category = ''Snacks'', Product = ''Chips'', Quantity = 3,
       Amount = 60, Latitude = ''12.5'', Longitude = ''77.1'',
       Timestamp = ''2024-01-01T10:00:00.1''\<rparr>,
      \<lparr>Unique_ID = ''uu'', Retailer = ''Corner Shop'', Salesperson = ''Asha'', Team = ''North'',
       Email = ''asha@example.com'', Category = ''Snacks'', Product = ''Cola'', Quantity = 2,
       Amount = 30, Latitude = ''12.5'', Longitude = ''77.1'',
       Timestamp = ''2024-01-01T10:00:00.11''\<rparr>]"



section \<open>Auxiliary facts\<close>

lemma split_on_nonempty: "split_on c cs s \<noteq> []"
  by (induction c cs s rule: split_on.induct) (auto split: list.splits)

lemma split_on_separator: "2 \<le> length (split_on c cs (pre @ c # cs @ rest))"
proof (induction pre)
  case Nil
  have "split_on c cs (c # cs @ rest) = [] # split_on c cs rest"
    by simp
  moreover have "split_on c cs rest \<noteq> []"
    by (rule split_on_nonempty)
  ultimately show ?case
    by (cases "split_on c cs rest") simp_all
next
  case (Cons x pre)
  define s where "s = pre @ c # cs @ rest"
  from Cons have ih: "2 \<le> length (split_on c cs s)"
    by (simp add: s_def)
  have "2 \<le> length (split_on c cs (x # s))"
  proof (cases "take (Suc (length cs)) (x # s) = c # cs")
    case True
    then have "split_on c cs (x # s) = [] # split_on c cs (drop (length cs) s)"
      by (simp only: split_on.simps simp_thms if_True)
    moreover have "split_on c cs (drop (length cs) s) \<noteq> []"
      by (rule split_on_nonempty)
    ultimately show ?thesis
      by (cases "split_on c cs (drop (length cs) s)") simp_all
  next
    case False
    then have "split_on c cs (x # s) =
        (case split_on c cs s of [] \<Rightarrow> [[x]] | piece # pieces \<Rightarrow> (x # piece) # pieces)"
      by (simp only: split_on.simps if_False)
    with ih show ?thesis
      by (cases "split_on c cs s") simp_all
  qed
  then show ?case
    by (simp add: s_def)
qed

lemma field_value_separator: "\<exists>v. field_value (pre @ '': '' @ rest) = Inr v"
proof -
  have "2 \<le> length (split_on CHR '':'' '' '' (pre @ CHR '':'' # '' '' @ rest))"
    by (rule split_on_separator)
  then obtain a b bs where "split_on CHR '':'' '' '' (pre @ '': '' @ rest) = a # b # bs"
    by (cases "split_on CHR '':'' '' '' (pre @ '': '' @ rest)"; cases "tl (split_on CHR '':'' '' '' (pre @ '': '' @ rest))") auto
  then show ?thesis
    by (simp add: field_value_def)
qed

lemma rendered_retailer_parses:
  assumes "find (\<lambda>r. r_name r = name) rs = Some r" and "name \<noteq> []"
  shows "\<exists>s. parse_salesperson_info (update_salesperson_info rs (Some name)) = Inr s"
proof -
  obtain a where a: "field_value ((bust @ '' Salesperson'') @ '': '' @ r_salesperson r) = Inr a"
    using field_value_separator by blast
  obtain b where b: "field_value ((loudspeaker @ '' Team'') @ '': '' @ r_team r) = Inr b"
    using field_value_separator by blast
  obtain c where c: "field_value ((envelope @ '' Email'') @ '': '' @ r_email r) = Inr c"
    using field_value_separator by blast
  from a b c assms show ?thesis
    by (simp add: parse_salesperson_info_def parse_field_def paragraph_text_def
        update_salesperson_info_def truthy_str_def)
qed

lemma build_loop_length:
  "length (fst (build_loop e r sp tm em c iv lat lon idx ps w)) = length ps"
  by (induction ps arbitrary: idx w) (simp_all add: Let_def case_prod_beta)

lemma build_loop_world:
  "snd (build_loop e r sp tm em c iv lat lon idx ps w) =
     w\<lparr>uuid_calls := uuid_calls w + length ps, clock_calls := clock_calls w + length ps\<rparr>"
  by (induction ps arbitrary: idx w) (simp_all add: Let_def case_prod_beta)

lemma build_loop_nth:
  "i < length ps \<Longrightarrow>
   fst (build_loop e r sp tm em c iv lat lon idx ps w) ! i =
     \<lparr>Unique_ID = uuid4 e (uuid_calls w + i), Retailer = r, Salesperson = sp, Team = tm,
      Email = em, Category = c, Product = p_name (ps ! i),
      Quantity = quantity_at iv (idx + i),
      Amount = price_of (ps ! i) * of_int (quantity_at iv (idx + i)),
      Latitude = lat, Longitude = lon, Timestamp = now_isoformat e (clock_calls w + i)\<rparr>"
proof (induction ps arbitrary: idx w i)
  case Nil
  then show ?case by simp
next
  case (Cons p ps)
  show ?case
  proof (cases i)
    case 0
    then show ?thesis
      by (simp add: Let_def case_prod_beta)
  next
    case (Suc j)
    with Cons.prems have "j < length ps" by simp
    from Cons.IH [OF this] Suc show ?thesis
      by (simp add: Let_def case_prod_beta)
  qed
qed

lemma append_loop_accepts:
  "\<forall>k<length rs. \<not> append_raises e (append_calls w + k) \<Longrightarrow>
   append_loop e rs w =
     (None, w\<lparr>append_calls := append_calls w + length rs, sheet_rows := sheet_rows w @ rs\<rparr>)"
proof (induction rs arbitrary: w)
  case Nil
  then show ?case by simp
next
  case (Cons r rs)
  from Cons.prems have first: "\<not> append_raises e (append_calls w)"
    by force
  let ?w = "w\<lparr>append_calls := Suc (append_calls w), sheet_rows := sheet_rows w @ [r]\<rparr>"
  have "\<forall>k<length rs. \<not> append_raises e (append_calls ?w + k)"
    using Cons.prems by force
  from Cons.IH [OF this] first show ?case
    by simp
qed

lemma append_loop_raises:
  "j < length rs \<Longrightarrow> append_raises e (append_calls w + j) \<Longrightarrow>
   \<forall>k<j. \<not> append_raises e (append_calls w + k) \<Longrightarrow>
   append_loop e rs w =
     (Some APIError,
      w\<lparr>append_calls := append_calls w + Suc j, sheet_rows := sheet_rows w @ take j rs\<rparr>)"
proof (induction rs arbitrary: w j)
  case Nil
  then show ?case by simp
next
  case (Cons r rs)
  show ?case
  proof (cases j)
    case 0
    with Cons.prems show ?thesis by simp
  next
    case (Suc i)
    let ?w = "w\<lparr>append_calls := Suc (append_calls w), sheet_rows := sheet_rows w @ [r]\<rparr>"
    from Cons.prems Suc have first: "\<not> append_raises e (append_calls w)"
      by force
    have a: "i < length rs" using Cons.prems Suc by simp
    have b: "append_raises e (append_calls ?w + i)" using Cons.prems Suc by simp
    have c: "\<forall>k<i. \<not> append_raises e (append_calls ?w + k)"
      using Cons.prems(3) Suc by force
    from Cons.IH [OF a b c] first Suc show ?thesis
      by simp
  qed
qed

lemma append_loop_prefix:
  "\<exists>n. sheet_rows (snd (append_loop e rs w)) = sheet_rows w @ take n rs"
proof (induction rs arbitrary: w)
  case Nil
  then show ?case by simp
next
  case (Cons r rs)
  show ?case
  proof (cases "append_raises e (append_calls w)")
    case True
    then have "sheet_rows (snd (append_loop e (r # rs) w)) = sheet_rows w @ take 0 (r # rs)"
      by simp
    then show ?thesis by blast
  next
    case False
    let ?w = "w\<lparr>append_calls := Suc (append_calls w), sheet_rows := sheet_rows w @ [r]\<rparr>"
    from Cons.IH [of ?w] obtain n where
      "sheet_rows (snd (append_loop e rs ?w)) = sheet_rows ?w @ take n rs" by blast
    with False have "sheet_rows (snd (append_loop e (r # rs) w)) = sheet_rows w @ take (Suc n) (r # rs)"
      by simp
    then show ?thesis by blast
  qed
qed

lemma length_apply_edits: "length (apply_edits es qs) = length qs"
  unfolding apply_edits_def
  by (induction es arbitrary: qs) (simp_all add: case_prod_beta)

lemma apply_edits_nth:
  "distinct (map fst es) \<Longrightarrow> k < length qs \<Longrightarrow>
   apply_edits es qs ! k = (case map_of es k of None \<Rightarrow> qs ! k | Some q \<Rightarrow> q)"
proof (induction es arbitrary: qs)
  case Nil
  then show ?case by (simp add: apply_edits_def)
next
  case (Cons a es)
  obtain i q where a: "a = (i, q)" by (cases a)
  from Cons.prems a have notin: "i \<notin> fst ` set es" and dist: "distinct (map fst es)"
    by simp_all
  have step: "apply_edits (a # es) qs = apply_edits es (qs[i := q])"
    by (simp add: apply_edits_def a)
  from Cons.prems have k: "k < length (qs[i := q])" by simp
  show ?case
  proof (cases "k = i")
    case True
    from notin have "map_of es i = None"
      by (simp add: map_of_eq_None_iff)
    with Cons.IH [OF dist k] True Cons.prems(2) a step show ?thesis
      by simp
  next
    case False
    with Cons.IH [OF dist k] a step show ?thesis
      by (simp split: option.splits)
  qed
qed

lemma apply_edits_permuted:
  assumes "distinct (map fst es)" and "mset es' = mset es"
  shows "apply_edits es' qs = apply_edits es qs"
proof (rule nth_equalityI)
  show "length (apply_edits es' qs) = length (apply_edits es qs)"
    by (simp add: length_apply_edits)
next
  fix k
  assume "k < length (apply_edits es' qs)"
  then have k: "k < length qs" by (simp add: length_apply_edits)
  from assms(2) have "mset (map fst es') = mset (map fst es)"
    by (metis mset_map)
  with assms(1) have d': "distinct (map fst es')"
    by (metis mset_eq_imp_distinct_iff)
  from assms(2) have "set es' = set es"
    by (rule mset_eq_setD)
  with assms(1) d' have "map_of es' = map_of es"
    by (simp add: map_of_inject_set)
  with apply_edits_nth [OF assms(1) k] apply_edits_nth [OF d' k]
  show "apply_edits es' qs ! k = apply_edits es qs ! k"
    by simp
qed

lemma build_submission_Inr:
  "parse_salesperson_info info = Inr (sp, tm, em) \<Longrightarrow> parse_geolocation geo = Inr (lat, lon) \<Longrightarrow>
   build_submission e w r c info iv geo =
     Inr (build_loop e r sp tm em c iv lat lon 0 (filtered_products (products_data e) c) w)"
  by (simp add: build_submission_def)

lemma build_submission_InrE:
  assumes "build_submission e w r c info iv geo = Inr (recs, w1)"
  obtains sp tm em lat lon where
    "parse_salesperson_info info = Inr (sp, tm, em)"
    "parse_geolocation geo = Inr (lat, lon)"
    "build_loop e r sp tm em c iv lat lon 0 (filtered_products (products_data e) c) w = (recs, w1)"
  using assms
  by (auto simp: build_submission_def split: sum.splits prod.splits)

lemma build_loop_fst_snd:
  "build_loop e r sp tm em c iv lat lon idx ps w = (recs, w1) \<Longrightarrow>
   recs = fst (build_loop e r sp tm em c iv lat lon idx ps w) \<and>
   w1 = w\<lparr>uuid_calls := uuid_calls w + length ps, clock_calls := clock_calls w + length ps\<rparr>"
  using build_loop_world [of e r sp tm em c iv lat lon idx ps w] by simp

lemma built_length:
  assumes "build_submission e w r c info iv geo = Inr (recs, w1)"
  shows "length recs = length (filtered_products (products_data e) c)"
  using assms build_loop_length [of e r _ _ _ c iv _ _ 0 "filtered_products (products_data e) c" w]
  by (elim build_submission_InrE) (metis fst_conv)

lemma built_world:
  assumes "build_submission e w r c info iv geo = Inr (recs, w1)"
  shows "w1 = w\<lparr>uuid_calls := uuid_calls w + length recs,
                  clock_calls := clock_calls w + length recs\<rparr>"
proof -
  from assms obtain sp tm em lat lon where
    b: "build_loop e r sp tm em c iv lat lon 0 (filtered_products (products_data e) c) w = (recs, w1)"
    by (rule build_submission_InrE)
  from built_length [OF assms] build_loop_fst_snd [OF b] show ?thesis
    by simp
qed

lemma built_nth:
  assumes "build_submission e w r c info iv geo = Inr (recs, w1)" and "i < length recs"
  shows "Unique_ID (recs ! i) = uuid4 e (uuid_calls w + i)
       \<and> Product (recs ! i) = p_name (filtered_products (products_data e) c ! i)
       \<and> Quantity (recs ! i) = quantity_at iv i
       \<and> Amount (recs ! i) =
           price_of (filtered_products (products_data e) c ! i) * of_int (quantity_at iv i)
       \<and> Timestamp (recs ! i) = now_isoformat e (clock_calls w + i)"
proof -
  from assms(1) obtain sp tm em lat lon where
    b: "build_loop e r sp tm em c iv lat lon 0 (filtered_products (products_data e) c) w = (recs, w1)"
    by (rule build_submission_InrE)
  from assms(2) built_length [OF assms(1)]
  have i: "i < length (filtered_products (products_data e) c)" by simp
  from build_loop_nth [OF i, of e r sp tm em c iv lat lon 0 w] b show ?thesis
    by simp
qed

lemma built_place:
  assumes "build_submission e w r c info iv geo = Inr (recs, w1)"
  shows "\<exists>lat lon. parse_geolocation geo = Inr (lat, lon)
           \<and> (\<forall>rec\<in>set recs. Latitude rec = lat \<and> Longitude rec = lon)"
proof -
  from assms obtain sp tm em lat lon where
    g: "parse_geolocation geo = Inr (lat, lon)" and
    b: "build_loop e r sp tm em c iv lat lon 0 (filtered_products (products_data e) c) w = (recs, w1)"
    by (rule build_submission_InrE)
  have "Latitude rec = lat \<and> Longitude rec = lon" if "rec \<in> set recs" for rec
  proof -
    from that obtain i where i: "i < length recs" and rec: "rec = recs ! i"
      by (auto simp: in_set_conv_nth)
    from i built_length [OF assms]
    have "i < length (filtered_products (products_data e) c)" by simp
    from build_loop_nth [OF this, of e r sp tm em c iv lat lon 0 w] b rec show ?thesis
      by simp
  qed
  with g show ?thesis by blast
qed

lemma append_loop_None:
  "append_loop e rs w = (None, w') \<Longrightarrow>
   w' = w\<lparr>append_calls := append_calls w + length rs, sheet_rows := sheet_rows w @ rs\<rparr>"
proof (induction rs arbitrary: w)
  case Nil
  then show ?case by simp
next
  case (Cons r rs)
  then show ?case
    by (cases "append_raises e (append_calls w)") (simp_all, force)
qed

lemma submit_data_refused:
  "\<not> truthy_int n \<or> \<not> truthy_str ret \<or> \<not> truthy_str cat \<Longrightarrow>
   submit_data e w n ret cat info iv geo = ((msg_incomplete, False), w)"
  by (auto simp: submit_data_def)

lemma submit_data_tried:
  "truthy_int n \<Longrightarrow> truthy_str ret \<Longrightarrow> truthy_str cat \<Longrightarrow>
   submit_data e w n ret cat info iv geo =
     (case try_submit e w (the ret) (the cat) info iv geo of
        (None, w') \<Rightarrow> ((msg_success (the cat) (the ret), True), w')
      | (Some err, w') \<Rightarrow> ((msg_error, False), w'))"
  by (simp add: submit_data_def)

lemma submit_data_displayedE:
  assumes "snd (fst (submit_data e w n ret cat info iv geo))"
  obtains recs w1 where
    "truthy_int n" "truthy_str ret" "truthy_str cat"
    "build_submission e w (the ret) (the cat) info iv geo = Inr (recs, w1)"
    "snd (submit_data e w n ret cat info iv geo) =
       w1\<lparr>append_calls := append_calls w1 + length recs, sheet_rows := sheet_rows w1 @ recs\<rparr>"
proof -
  from assms have t: "truthy_int n" "truthy_str ret" "truthy_str cat"
    by (auto simp: submit_data_def split: if_splits)
  obtain r w' where tr: "try_submit e w (the ret) (the cat) info iv geo = (r, w')"
    by (cases "try_submit e w (the ret) (the cat) info iv geo")
  with assms t have r: "r = None"
    by (cases r) (simp_all add: submit_data_tried)
  with tr t have s: "snd (submit_data e w n ret cat info iv geo) = w'"
    by (simp add: submit_data_tried)
  from tr r obtain recs w1 where
    b: "build_submission e w (the ret) (the cat) info iv geo = Inr (recs, w1)" and
    a: "append_loop e recs w1 = (None, w')"
    by (auto simp: try_submit_def split: sum.splits prod.splits if_splits)
  from append_loop_None [OF a] s t b that show ?thesis
    by simp
qed

lemma submit_data_rows:
  "new_rows w (snd (submit_data e w n ret cat info iv geo)) = [] \<or>
   (\<exists>recs w1 k. build_submission e w (the ret) (the cat) info iv geo = Inr (recs, w1)
      \<and> new_rows w (snd (submit_data e w n ret cat info iv geo)) = take k recs)"
proof (cases "truthy_int n \<and> truthy_str ret \<and> truthy_str cat")
  case False
  then show ?thesis
    by (auto simp: submit_data_def new_rows_def)
next
  case True
  show ?thesis
  proof (cases "build_submission e w (the ret) (the cat) info iv geo")
    case (Inl err)
    with True show ?thesis
      by (simp add: submit_data_tried try_submit_def new_rows_def)
  next
    case (Inr p)
    obtain recs w1 where p: "p = (recs, w1)" by (cases p)
    from built_world [OF Inr [unfolded p]] have rows: "sheet_rows w1 = sheet_rows w"
      by simp
    show ?thesis
    proof (cases "worksheet_raises e")
      case True
      with \<open>truthy_int n \<and> truthy_str ret \<and> truthy_str cat\<close> Inr p rows show ?thesis
        by (simp add: submit_data_tried try_submit_def new_rows_def)
    next
      case False
      from append_loop_prefix [of e recs w1] obtain k where
        k: "sheet_rows (snd (append_loop e recs w1)) = sheet_rows w1 @ take k recs" by blast
      have "snd (submit_data e w n ret cat info iv geo) = snd (append_loop e recs w1)"
        using True False Inr p
        by (simp add: submit_data_tried try_submit_def split: prod.splits option.splits)
      with k rows have "new_rows w (snd (submit_data e w n ret cat info iv geo)) = take k recs"
        by (simp add: new_rows_def)
      with Inr p show ?thesis by blast
    qed
  qed
qed

lemma corner_shop_info:
  "update_salesperson_info (retailers_data demo_env) (Some ''Corner Shop'') =
     Elems [bust @ '' Salesperson: Asha'', loudspeaker @ '' Team: North'',
            envelope @ '' Email: asha@example.com'']"
  by (simp add: update_salesperson_info_def demo_env_def truthy_str_def corner_shop_def)

lemma corner_shop_parsed:
  "parse_salesperson_info (update_salesperson_info (retailers_data demo_env) (Some ''Corner Shop'')) =
     Inr (''Asha'', ''North'', ''asha@example.com'')"
  by (simp add: corner_shop_info parse_salesperson_info_def parse_field_def paragraph_text_def
      field_value_def bust_def loudspeaker_def envelope_def)

lemma kiosk_parsed:
  "parse_salesperson_info (update_salesperson_info (retailers_data demo_env) (Some ''Kiosk'')) =
     Inr ([], ''South'', ''south@example.com'')"
  by (simp add: update_salesperson_info_def demo_env_def truthy_str_def corner_shop_def kiosk_def
      parse_salesperson_info_def parse_field_def paragraph_text_def
      field_value_def bust_def loudspeaker_def envelope_def)

lemma snacks_filtered:
  "filtered_products (products_data demo_env) ''Snacks'' = [chips, cola]"
  by (simp add: filtered_products_def demo_env_def chips_def soap_def cola_def)

lemma no_geolocation: "parse_geolocation None = Inr (''0'', ''0'')"
  by (simp add: parse_geolocation_def truthy_str_def)

lemma some_geolocation: "parse_geolocation (Some ''12.5,77.1'') = Inr (''12.5'', ''77.1'')"
  by (simp add: parse_geolocation_def truthy_str_def)

lemma demo_built:
  "build_submission demo_env demo_world ''Corner Shop'' ''Snacks''
     (update_salesperson_info (retailers_data demo_env) (Some ''Corner Shop''))
     [Some 3, Some 0] None =
   Inr (demo_rows, demo_world\<lparr>uuid_calls := 2, clock_calls := 2\<rparr>)"
  by (simp only: build_submission_Inr [OF corner_shop_parsed no_geolocation] snacks_filtered)
     (simp add: Let_def quantity_at_def price_of_def chips_def cola_def demo_rows_def
        demo_world_def demo_env_def)

lemma demo_submitted:
  "submit_data demo_env demo_world (Some 1) (Some ''Corner Shop'') (Some ''Snacks'')
     (update_salesperson_info (retailers_data demo_env) (Some ''Corner Shop''))
     [Some 3, Some 0] None =
   ((msg_success ''Snacks'' ''Corner Shop'', True),
    \<lparr>uuid_calls = 2, clock_calls = 2, append_calls = 2, sheet_rows = demo_rows\<rparr>)"
  by (simp add: submit_data_def truthy_int_def truthy_str_def try_submit_def demo_built)
     (simp add: demo_env_def demo_world_def demo_rows_def)

lemma quantity_zero_amount:
  assumes "build_submission e w r c info iv geo = Inr (recs, w1)" and "rec \<in> set recs"
    and "Quantity rec = 0"
  shows "Amount rec = 0"
proof -
  from assms(2) obtain i where i: "i < length recs" and rec: "rec = recs ! i"
    by (auto simp: in_set_conv_nth)
  from built_nth [OF assms(1) i] rec assms(3) show ?thesis
    by simp
qed

lemma built_products:
  assumes "build_submission e w r c info iv geo = Inr (recs, w1)"
  shows "map Product recs = map p_name (filtered_products (products_data e) c)"
proof (rule nth_equalityI)
  show "length (map Product recs) = length (map p_name (filtered_products (products_data e) c))"
    using built_length [OF assms] by simp
next
  fix i
  assume "i < length (map Product recs)"
  then have i: "i < length recs" by simp
  with built_nth [OF assms i] built_length [OF assms]
  show "map Product recs ! i = map p_name (filtered_products (products_data e) c) ! i"
    by simp
qed

lemma submit_data_accepted:
  assumes "truthy_int n" and "truthy_str ret" and "truthy_str cat"
    and "build_submission e w (the ret) (the cat) info iv geo = Inr (recs, w1)"
    and "\<not> worksheet_raises e"
    and "\<forall>k<length recs. \<not> append_raises e (append_calls w + k)"
  shows "submit_data e w n ret cat info iv geo =
     ((msg_success (the cat) (the ret), True),
      w1\<lparr>append_calls := append_calls w + length recs, sheet_rows := sheet_rows w @ recs\<rparr>)"
proof -
  from built_world [OF assms(4)] have same: "append_calls w1 = append_calls w"
      "sheet_rows w1 = sheet_rows w"
    by simp_all
  with assms(6) have "\<forall>k<length recs. \<not> append_raises e (append_calls w1 + k)"
    by simp
  from append_loop_accepts [OF this] assms(1-5) same show ?thesis
    by (simp add: submit_data_tried try_submit_def)
qed

lemma quantity_at_eq:
  "quantity_at iv i = (if i < length iv then (case iv ! i of None \<Rightarrow> 0 | Some q \<Rightarrow> q) else 0)"
  by (auto simp: quantity_at_def split: option.splits)

lemma built_timestamps:
  assumes "build_submission e w r c info iv geo = Inr (recs, w1)"
  shows "map Timestamp recs = map (now_isoformat e) [clock_calls w..<clock_calls w + length recs]"
proof (rule nth_equalityI)
  show "length (map Timestamp recs) =
      length (map (now_isoformat e) [clock_calls w..<clock_calls w + length recs])"
    by simp
next
  fix i
  assume "i < length (map Timestamp recs)"
  then have i: "i < length recs" by simp
  with built_nth [OF assms i]
  show "map Timestamp recs ! i =
      map (now_isoformat e) [clock_calls w..<clock_calls w + length recs] ! i"
    by simp
qed

lemma displayed_rows:
  assumes "snd (fst (submit_data e w n ret cat info iv geo))"
  shows "\<exists>w1. build_submission e w (the ret) (the cat) info iv geo =
           Inr (new_rows w (snd (submit_data e w n ret cat info iv geo)), w1)"
proof -
  from assms obtain recs w1 where
    b: "build_submission e w (the ret) (the cat) info iv geo = Inr (recs, w1)" and
    s: "snd (submit_data e w n ret cat info iv geo) =
       w1\<lparr>append_calls := append_calls w1 + length recs, sheet_rows := sheet_rows w1 @ recs\<rparr>"
    by (rule submit_data_displayedE)
  from built_world [OF b] have "sheet_rows w1 = sheet_rows w" by simp
  with s have "new_rows w (snd (submit_data e w n ret cat info iv geo)) = recs"
    by (simp add: new_rows_def)
  with b show ?thesis by blast
qed

lemma unknown_retailer_raises:
  assumes "find (\<lambda>r. r_name r = the ret) rs = None"
  shows "\<exists>err. parse_salesperson_info (update_salesperson_info rs ret) = Inl err"
  using assms
  by (simp add: update_salesperson_info_def parse_salesperson_info_def parse_field_def
      paragraph_text_def)

lemma submit_data_raised:
  assumes "truthy_int n" and "truthy_str ret" and "truthy_str cat"
    and "parse_salesperson_info info = Inl err"
  shows "submit_data e w n ret cat info iv geo = ((msg_error, False), w)"
  using assms
  by (simp add: submit_data_tried try_submit_def build_submission_def)

lemma kiosk_built:
  "build_submission demo_env demo_world ''Kiosk'' ''Snacks''
     (update_salesperson_info (retailers_data demo_env) (Some ''Kiosk''))
     [Some 3, Some 0] None =
   Inr (fst (build_loop demo_env ''Kiosk'' [] ''South'' ''south@example.com'' ''Snacks''
               [Some 3, Some 0] ''0'' ''0'' 0 [chips, cola] demo_world),
        demo_world\<lparr>uuid_calls := 2, clock_calls := 2\<rparr>)"
proof -
  have "build_submission demo_env demo_world ''Kiosk'' ''Snacks''
     (update_salesperson_info (retailers_data demo_env) (Some ''Kiosk''))
     [Some 3, Some 0] None =
     Inr (build_loop demo_env ''Kiosk'' [] ''South'' ''south@example.com'' ''Snacks''
               [Some 3, Some 0] ''0'' ''0'' 0 [chips, cola] demo_world)"
    by (simp only: build_submission_Inr [OF kiosk_parsed no_geolocation] snacks_filtered)
  moreover have "snd (build_loop demo_env ''Kiosk'' [] ''South'' ''south@example.com'' ''Snacks''
               [Some 3, Some 0] ''0'' ''0'' 0 [chips, cola] demo_world) =
      demo_world\<lparr>uuid_calls := 2, clock_calls := 2\<rparr>"
    by (simp only: build_loop_world) (simp add: demo_world_def)
  ultimately show ?thesis
    by (metis prod.collapse)
qed

lemma failing_env_parsed:
  "parse_salesperson_info (update_salesperson_info (retailers_data failing_env) (Some ''Corner Shop'')) =
     Inr (''Asha'', ''North'', ''asha@example.com'')"
  using corner_shop_parsed by (simp add: failing_env_def demo_env_def)

lemma failing_env_filtered:
  "filtered_products (products_data failing_env) ''Snacks'' = [chips, cola]"
  by (simp add: filtered_products_def failing_env_def chips_def soap_def cola_def)

lemma failing_built:
  "build_submission failing_env demo_world ''Corner Shop'' ''Snacks''
     (update_salesperson_info (retailers_data failing_env) (Some ''Corner Shop''))
     [Some 3, Some 2] (Some ''12.5,77.1'') =
   Inr (failing_rows, demo_world\<lparr>uuid_calls := 2, clock_calls := 2\<rparr>)"
  by (simp only: build_submission_Inr [OF failing_env_parsed some_geolocation] failing_env_filtered)
     (simp add: Let_def quantity_at_def price_of_def chips_def cola_def failing_rows_def
        demo_world_def failing_env_def)

lemma built_ids:
  assumes "build_submission e w r c info iv geo = Inr (recs, w1)"
  shows "map Unique_ID recs = map (uuid4 e) [uuid_calls w..<uuid_calls w + length recs]"
proof (rule nth_equalityI)
  show "length (map Unique_ID recs) =
      length (map (uuid4 e) [uuid_calls w..<uuid_calls w + length recs])"
    by simp
next
  fix i
  assume "i < length (map Unique_ID recs)"
  then have i: "i < length recs" by simp
  with built_nth [OF assms i]
  show "map Unique_ID recs ! i = map (uuid4 e) [uuid_calls w..<uuid_calls w + length recs] ! i"
    by simp
qed

lemma demo_uuid_inj: "inj demo_uuid"
proof (rule injI)
  fix x y
  assume "demo_uuid x = demo_uuid y"
  then have "length (demo_uuid x) = length (demo_uuid y)" by simp
  then show "x = y" by simp
qed


lemma floor_numeral_divide_rat:
  "\<lfloor>numeral a / numeral b :: rat\<rfloor> = numeral a div numeral b"
  by (metis floor_divide_of_int_eq of_int_numeral)

lemma round_half_even_of_int: "round_half_even (of_int j) = j"
  by (simp add: round_half_even_def)

lemma whole_times_power:
  assumes "of_int \<lfloor>x\<rfloor> = (x::rat)"
  shows "round_half_even (x * 2 ^ k) = \<lfloor>x\<rfloor> * 2 ^ k"
proof -
  from assms obtain j where j: "x = of_int j"
    by (metis of_int_floor_cancel)
  then have "x * 2 ^ k = of_int (j * 2 ^ k)"
    by simp
  then have "round_half_even (x * 2 ^ k) = j * 2 ^ k"
    by (simp only: round_half_even_of_int)
  with j show ?thesis
    by simp
qed

lemma round_magnitude_whole:
  assumes "0 \<le> x" and "x \<le> 9007199254740992" and "of_int \<lfloor>x\<rfloor> = x"
  shows "round_magnitude x = x"
proof (cases "4503599627370496 \<le> x")
  case False
  have "of_int (round_half_even (x * 2 ^ k)) / 2 ^ k = x" for k
    using assms(3) by (simp add: whole_times_power)
  with False show ?thesis
    by (simp add: round_magnitude_def Let_def)
next
  case True
  show ?thesis
  proof (cases "x < 9007199254740992")
    case True
    then have "scale_down 971 x = 0"
      by (simp add: scale_down.simps)
    moreover have "round_half_even x = \<lfloor>x\<rfloor>"
      using round_half_even_of_int [of "\<lfloor>x\<rfloor>"] assms(3) by simp
    ultimately show ?thesis
      using \<open>4503599627370496 \<le> x\<close> assms(3) by (simp add: round_magnitude_def)
  next
    case False
    with assms(2) have x: "x = 9007199254740992" by simp
    have "scale_down 970 (9007199254740992 / 2) = 0"
      by (simp add: scale_down.simps)
    then have e: "scale_down 971 9007199254740992 = Suc 0"
      by (simp add: scale_down.simps)
    have "round_half_even (9007199254740992 / 2 ^ Suc 0) = 4503599627370496"
      using round_half_even_of_int [of 4503599627370496] by simp
    with e x show ?thesis
      by (simp add: round_magnitude_def)
  qed
qed

lemma below_overflow: "x \<le> 9007199254740992 \<Longrightarrow> \<not> 2 ^ 1024 \<le> (x::rat)"
proof -
  have "(9007199254740992::rat) = 2 ^ 53" by simp
  also have "\<dots> < 2 ^ 1024" by (rule power_strict_increasing) simp_all
  finally show "x \<le> 9007199254740992 \<Longrightarrow> \<not> 2 ^ 1024 \<le> x" by simp
qed

lemma round_double_whole:
  assumes "0 \<le> x" and "x \<le> 9007199254740992" and "of_int \<lfloor>x\<rfloor> = x"
  shows "round_double s x = Finite s x"
  using round_magnitude_whole [OF assms] below_overflow [OF assms(2)]
  by (simp add: round_double_def)

lemma double_of_rat_whole:
  assumes "\<bar>x\<bar> \<le> 9007199254740992" and "of_int \<lfloor>x\<rfloor> = x"
  shows "double_of_rat x = Finite (x < 0) \<bar>x\<bar>"
proof -
  from assms(2) have "of_int \<lfloor>\<bar>x\<bar>\<rfloor> = \<bar>x\<bar>"
    by (metis of_int_abs of_int_floor_cancel)
  with assms(1) show ?thesis
    by (simp add: double_of_rat_def round_double_whole)
qed

lemma float_of_int_exact:
  assumes "\<bar>n\<bar> \<le> 9007199254740992"
  shows "float_of_int n = Inr (Finite (n < 0) (of_int \<bar>n\<bar>))"
proof -
  from assms have "\<bar>rat_of_int n\<bar> \<le> 9007199254740992"
    by (metis of_int_abs of_int_le_iff of_int_numeral)
  then have "double_of_rat (of_int n) = Finite (n < 0) (of_int \<bar>n\<bar>)"
    using double_of_rat_whole [of "of_int n"] by simp
  then show ?thesis
    by (simp add: float_of_int_def)
qed

lemma float_of_number_exact:
  assumes "\<bar>x\<bar> \<le> 9007199254740992" and "of_int \<lfloor>x\<rfloor> = x"
  shows "float_of_number x = Inr (Finite (x < 0) \<bar>x\<bar>)"
proof -
  from assms have "\<bar>\<lfloor>x\<rfloor>\<bar> \<le> 9007199254740992"
    by (metis of_int_abs of_int_le_iff of_int_numeral)
  from float_of_int_exact [OF this] assms(2) show ?thesis
    by (simp add: float_of_number_def)
qed

lemma whole_floor: "x \<in> \<int> \<Longrightarrow> of_int \<lfloor>x\<rfloor> = (x::rat)"
  by (auto elim: Ints_cases)

lemma float_mul_exact:
  assumes "0 \<le> x" and "0 \<le> y" and "x * y \<le> 9007199254740992" and "x * y \<in> \<int>"
  shows "float_mul (Finite s x) (Finite t y) = Finite (s \<noteq> t) (x * y)"
proof -
  from assms(1,2) have "0 \<le> x * y" by simp
  from round_double_whole [OF this assms(3) whole_floor [OF assms(4)]] show ?thesis
    by (simp add: float_mul_def)
qed

lemma float_add_exact:
  assumes "0 \<le> x" and "0 \<le> y" and "x + y \<le> 9007199254740992" and "x + y \<in> \<int>"
  shows "float_add (Finite False x) (Finite False y) = Finite False (x + y)"
proof -
  from assms(1,2) have "0 \<le> x + y" by simp
  from round_double_whole [OF this assms(3) whole_floor [OF assms(4)]] this show ?thesis
    by (simp add: float_add_def Let_def)
qed

lemma format_2f_zero: "format_2f (Finite False 0) = ''0.00''"
  by (simp add: format_2f_def round_half_even_def show_nat.simps digit_char_def Let_def)

lemma format_2f_60: "format_2f (Finite False 60) = ''60.00''"
  by (simp add: format_2f_def round_half_even_def show_nat.simps digit_char_def Let_def)

lemma format_2f_30: "format_2f (Finite False 30) = ''30.00''"
  by (simp add: format_2f_def round_half_even_def show_nat.simps digit_char_def Let_def)

lemma format_2f_90: "format_2f (Finite False 90) = ''90.00''"
  by (simp add: format_2f_def round_half_even_def show_nat.simps digit_char_def Let_def)

lemma format_2f_minus_20: "format_2f (Finite True 20) = ''-20.00''"
  by (simp add: format_2f_def round_half_even_def show_nat.simps digit_char_def Let_def)

lemma total_loop_eq:
  "idx + length qs \<le> length ids \<Longrightarrow> length ams = length qs \<Longrightarrow>
   \<forall>k<length qs. line_amount P (qs ! k) (ids ! (idx + k)) = Inr (ams ! k) \<Longrightarrow>
   total_loop P ids idx qs tv ct =
     Inr (tv @ map (\<lambda>a. rupee @ format_2f a) ams, foldl float_add ct ams)"
proof (induction qs arbitrary: idx tv ct ams)
  case Nil
  then show ?case by simp
next
  case (Cons q qs)
  from Cons.prems(2) obtain a as where ams: "ams = a # as" and las: "length as = length qs"
    by (cases ams) simp_all
  from Cons.prems(1) have lt: "idx < length ids" and le: "Suc idx + length qs \<le> length ids"
    by simp_all
  from Cons.prems(3) [rule_format, of 0] ams have first: "line_amount P q (ids ! idx) = Inr a"
    by simp
  have rest: "\<forall>k<length qs. line_amount P (qs ! k) (ids ! (Suc idx + k)) = Inr (as ! k)"
  proof (intro allI impI)
    fix k
    assume "k < length qs"
    with Cons.prems(3) [rule_format, of "Suc k"] ams
    show "line_amount P (qs ! k) (ids ! (Suc idx + k)) = Inr (as ! k)"
      by simp
  qed
  from Cons.IH [OF le las rest] lt first ams show ?case
    by simp
qed

lemma update_total_amount_eq:
  assumes "length ids = length qs" and "length ams = length qs"
    and "\<forall>k<length qs. line_amount P (qs ! k) (ids ! k) = Inr (ams ! k)"
  shows "update_total_amount P qs ids =
     Inr (map (\<lambda>a. rupee @ format_2f a) ams,
          ''Total Value: '' @ rupee @ format_2f (foldl float_add (Finite False 0) ams))"
proof (cases "qs = []")
  case True
  with assms show ?thesis
    by (simp add: update_total_amount_def format_2f_zero)
next
  case False
  from assms(1) have "0 + length qs \<le> length ids" by simp
  from total_loop_eq [OF this assms(2), of P "[]" "Finite False 0"] assms(3) False show ?thesis
    by (simp add: update_total_amount_def)
qed

lemma find_unique:
  "distinct (map f xs) \<Longrightarrow> x \<in> set xs \<Longrightarrow> find (\<lambda>y. f y = f x) xs = Some x"
  by (induction xs) (auto simp: image_iff)

lemma line_amount_product:
  assumes "distinct (map p_name P)" and "p \<in> set P"
    and "float_of_number (price_of p) = Inr fp" and "float_of_int (entered q) = Inr fq"
  shows "line_amount P q (p_name p) = Inr (float_mul fp fq)"
  using assms(3,4) find_unique [OF assms(1,2)]
  by (simp add: line_amount_def float_price_def price_of_def)

lemma elem_le_sum_list:
  "\<forall>x\<in>set xs. 0 \<le> x \<Longrightarrow> y \<in> set xs \<Longrightarrow> y \<le> sum_list (xs :: rat list)"
proof (induction xs)
  case Nil
  then show ?case by simp
next
  case (Cons x xs)
  then have "0 \<le> sum_list xs"
    by (simp add: sum_list_nonneg)
  with Cons show ?case
    by auto
qed

lemma foldl_float_add_exact:
  "\<forall>x\<in>set xs. 0 \<le> x \<and> x \<in> \<int> \<Longrightarrow> 0 \<le> a \<Longrightarrow> a \<in> \<int> \<Longrightarrow>
   a + sum_list xs \<le> 9007199254740992 \<Longrightarrow>
   foldl float_add (Finite False a) (map (Finite False) xs) = Finite False (a + sum_list xs)"
proof (induction xs arbitrary: a)
  case Nil
  then show ?case by simp
next
  case (Cons x xs)
  from Cons.prems(1) have x: "0 \<le> x" "x \<in> \<int>" and xs: "\<forall>x\<in>set xs. 0 \<le> x \<and> x \<in> \<int>"
    by simp_all
  from xs have "0 \<le> sum_list xs"
    by (simp add: sum_list_nonneg)
  with Cons.prems(4) have le: "a + x \<le> 9007199254740992"
    by simp
  from Cons.prems(3) x(2) have w: "a + x \<in> \<int>"
    by (rule Ints_add)
  from Cons.prems(2) x(1) have nn: "0 \<le> a + x" by simp
  from Cons.prems(4) have "(a + x) + sum_list xs \<le> 9007199254740992"
    by (simp add: add.assoc)
  from Cons.IH [OF xs nn w this] float_add_exact [OF Cons.prems(2) x(1) le w] show ?case
    by (simp add: add.assoc)
qed

lemma recompute_float:
  assumes "length ps = length qs" and "set ps \<subseteq> set P" and "distinct (map p_name P)"
    and "\<forall>i<length ps. float_of_number (price_of (ps ! i)) = Inr (price i)
           \<and> float_of_int (entered (qs ! i)) = Inr (quantity i)"
  shows "update_total_amount P qs (map p_name ps) =
     Inr (map (\<lambda>i. rupee @ format_2f (float_mul (price i) (quantity i))) [0..<length ps],
          ''Total Value: '' @ rupee
            @ format_2f (foldl float_add (Finite False 0)
                (map (\<lambda>i. float_mul (price i) (quantity i)) [0..<length ps])))"
proof -
  let ?ams = "map (\<lambda>i. float_mul (price i) (quantity i)) [0..<length ps]"
  have a: "length (map p_name ps) = length qs" using assms(1) by simp
  have b: "length ?ams = length qs" using assms(1) by simp
  have c: "\<forall>k<length qs. line_amount P (qs ! k) (map p_name ps ! k) = Inr (?ams ! k)"
  proof (intro allI impI)
    fix k
    assume "k < length qs"
    with assms(1) have k: "k < length ps" by simp
    with assms(2) have "ps ! k \<in> set P" by auto
    from line_amount_product [OF assms(3) this] assms(4) [rule_format, OF k] k
    show "line_amount P (qs ! k) (map p_name ps ! k) = Inr (?ams ! k)"
      by simp
  qed
  from update_total_amount_eq [OF a b c] show ?thesis
    by (simp add: comp_def)
qed

lemma recompute_exact:
  assumes "length ps = length qs" and "set ps \<subseteq> set P" and "distinct (map p_name P)"
    and "\<forall>i<length ps. price_of (ps ! i) \<in> \<int> \<and> 0 \<le> price_of (ps ! i)
           \<and> price_of (ps ! i) \<le> 9007199254740992
           \<and> 0 \<le> entered (qs ! i) \<and> entered (qs ! i) \<le> 9007199254740992"
    and "(\<Sum>i\<leftarrow>[0..<length ps]. price_of (ps ! i) * of_int (entered (qs ! i))) \<le> 9007199254740992"
  shows "update_total_amount P qs (map p_name ps) =
     Inr (map (\<lambda>i. rupee @ format_2f (Finite False (price_of (ps ! i) * of_int (entered (qs ! i)))))
            [0..<length ps],
          ''Total Value: '' @ rupee
            @ format_2f (Finite False
                (\<Sum>i\<leftarrow>[0..<length ps]. price_of (ps ! i) * of_int (entered (qs ! i)))))"
proof -
  let ?n = "length ps"
  let ?a = "\<lambda>i. price_of (ps ! i) * of_int (entered (qs ! i))"
  let ?price = "\<lambda>i. Finite False (price_of (ps ! i))"
  let ?quantity = "\<lambda>i. Finite False (of_int (entered (qs ! i)))"
  have conv: "\<forall>i<?n. float_of_number (price_of (ps ! i)) = Inr (?price i)
           \<and> float_of_int (entered (qs ! i)) = Inr (?quantity i)"
  proof (intro allI impI)
    fix i
    assume "i < ?n"
    with assms(4) have h: "price_of (ps ! i) \<in> \<int>" "0 \<le> price_of (ps ! i)"
        "price_of (ps ! i) \<le> 9007199254740992"
        "0 \<le> entered (qs ! i)" "entered (qs ! i) \<le> 9007199254740992"
      by simp_all
    from h(2,3) have "\<bar>price_of (ps ! i)\<bar> \<le> 9007199254740992" by simp
    from float_of_number_exact [OF this whole_floor [OF h(1)]] h(2)
    have p: "float_of_number (price_of (ps ! i)) = Inr (?price i)"
      by simp
    from h(4,5) have "\<bar>entered (qs ! i)\<bar> \<le> 9007199254740992" by simp
    from float_of_int_exact [OF this] h(4)
    have "float_of_int (entered (qs ! i)) = Inr (?quantity i)"
      by simp
    with p show "float_of_number (price_of (ps ! i)) = Inr (?price i)
           \<and> float_of_int (entered (qs ! i)) = Inr (?quantity i)"
      by simp
  qed
  have terms: "\<forall>x\<in>set (map ?a [0..<?n]). 0 \<le> x \<and> x \<in> \<int>"
  proof
    fix x
    assume "x \<in> set (map ?a [0..<?n])"
    then obtain i where i: "i < ?n" and x: "x = ?a i" by auto
    with assms(4) have "price_of (ps ! i) \<in> \<int>" "0 \<le> price_of (ps ! i)" "0 \<le> entered (qs ! i)"
      by simp_all
    with x show "0 \<le> x \<and> x \<in> \<int>"
      by simp
  qed
  have mul: "float_mul (?price i) (?quantity i) = Finite False (?a i)" if i: "i < ?n" for i
  proof -
    from i have m: "?a i \<in> set (map ?a [0..<?n])" by simp
    from terms have "\<forall>x\<in>set (map ?a [0..<?n]). 0 \<le> x" by blast
    from elem_le_sum_list [OF this m] assms(5) have le: "?a i \<le> 9007199254740992"
      by simp
    from terms m have w: "?a i \<in> \<int>" by blast
    from assms(4) i have "0 \<le> price_of (ps ! i)" "0 \<le> rat_of_int (entered (qs ! i))"
      by simp_all
    from float_mul_exact [OF this le w] show ?thesis
      by simp
  qed
  have lines: "map (\<lambda>i. rupee @ format_2f (float_mul (?price i) (?quantity i))) [0..<?n] =
      map (\<lambda>i. rupee @ format_2f (Finite False (?a i))) [0..<?n]"
    using mul by simp
  have "map (\<lambda>i. float_mul (?price i) (?quantity i)) [0..<?n] = map (Finite False) (map ?a [0..<?n])"
    using mul by simp
  moreover from foldl_float_add_exact [OF terms, of 0] assms(5)
  have "foldl float_add (Finite False 0) (map (Finite False) (map ?a [0..<?n])) =
      Finite False (sum_list (map ?a [0..<?n]))"
    by simp
  ultimately have total: "foldl float_add (Finite False 0)
      (map (\<lambda>i. float_mul (?price i) (?quantity i)) [0..<?n]) =
      Finite False (sum_list (map ?a [0..<?n]))"
    by (simp only:)
  from recompute_float [OF assms(1-3) conv] show ?thesis
    by (simp only: lines total)
qed

lemma half_cent_double:
  "double_of_rat (1 / 200) = Finite False (5764607523034235 / 1152921504606846976)"
  by (simp add: double_of_rat_def round_double_def round_magnitude_def scale_up.simps
      round_half_even_def floor_numeral_divide_rat Let_def)

lemma three_half_cents:
  "float_mul (Finite False (5764607523034235 / 1152921504606846976)) (Finite False 3) =
     Finite False (1080863910568919 / 72057594037927936)"
  by (simp add: float_mul_def round_double_def round_magnitude_def scale_up.simps
      round_half_even_def floor_numeral_divide_rat Let_def)

lemma format_three_half_cents:
  "format_2f (Finite False (1080863910568919 / 72057594037927936)) = ''0.01''"
  by (simp add: format_2f_def round_half_even_def floor_numeral_divide_rat show_nat.simps
      digit_char_def Let_def)



lemma floor_one_divide_rat: "\<lfloor>1 / numeral b :: rat\<rfloor> = 1 div numeral b"
  by (metis floor_divide_of_int_eq of_int_1 of_int_numeral)

lemma half_cent_float:
  "float_of_number (1 / 200) = Inr (Finite False (5764607523034235 / 1152921504606846976))"
  by (simp add: float_of_number_def half_cent_double floor_one_divide_rat)

lemma three_half_cents_total:
  "float_add (Finite False 0) (Finite False (1080863910568919 / 72057594037927936)) =
     Finite False (1080863910568919 / 72057594037927936)"
  by (simp add: float_add_def round_double_def round_magnitude_def scale_up.simps
      round_half_even_def floor_numeral_divide_rat Let_def)

lemma line_amount_blank: "line_amount P None pid = line_amount P (Some 0) pid"
  by (simp add: line_amount_def entered_def)

lemma total_loop_blank:
  "total_loop P ids idx (qs[i := None]) tv ct = total_loop P ids idx (qs[i := Some 0]) tv ct"
proof (induction qs arbitrary: i idx tv ct)
  case Nil
  then show ?case by simp
next
  case (Cons q qs)
  show ?case
  proof (cases i)
    case 0
    then show ?thesis by (simp add: line_amount_blank)
  next
    case (Suc j)
    with Cons.IH [of _ j] show ?thesis by (simp split: sum.splits)
  qed
qed

lemma chips_amount:
  "line_amount [chips, soap, cola] (Some (- 1)) ''Chips'' = Inr (Finite True 20)"
  "line_amount [chips, soap, cola] (Some 0) ''Chips'' = Inr (Finite False 0)"
  "line_amount [chips, soap, cola] (Some 0) ''Cola'' = Inr (Finite False 0)"
proof -
  have p: "float_price chips = Inr (Finite False 20)" "float_price cola = Inr (Finite False 15)"
    using float_of_number_exact [of 20] float_of_number_exact [of 15]
    by (simp_all add: float_price_def chips_def cola_def)
  have q: "float_of_int (- 1) = Inr (Finite True 1)" "float_of_int 0 = Inr (Finite False 0)"
    using float_of_int_exact [of "- 1"] float_of_int_exact [of 0] by simp_all
  have m: "float_mul (Finite False 20) (Finite True 1) = Finite True 20"
      "float_mul (Finite False 20) (Finite False 0) = Finite False 0"
      "float_mul (Finite False 15) (Finite False 0) = Finite False 0"
    using float_mul_exact [of 20 1 False True] float_mul_exact [of 20 0 False False]
      float_mul_exact [of 15 0 False False]
    by simp_all
  show "line_amount [chips, soap, cola] (Some (- 1)) ''Chips'' = Inr (Finite True 20)"
    by (simp add: line_amount_def entered_def p q m) (simp add: chips_def)
  show "line_amount [chips, soap, cola] (Some 0) ''Chips'' = Inr (Finite False 0)"
    by (simp add: line_amount_def entered_def p q m) (simp add: chips_def)
  show "line_amount [chips, soap, cola] (Some 0) ''Cola'' = Inr (Finite False 0)"
    by (simp add: line_amount_def entered_def p q m) (simp add: chips_def soap_def cola_def)
qed

lemma minus_20_total:
  "float_add (Finite False 0) (Finite True 20) = Finite True 20"
  "float_add (Finite True 20) (Finite False 0) = Finite True 20"
  "float_add (Finite False 0) (Finite False 0) = Finite False 0"
  using round_double_whole [of 20 True]
  by (simp_all add: float_add_def Let_def)









lemma bazaar_built:
  "build_submission demo_env demo_world ''Bazaar'' ''Snacks''
     (update_salesperson_info (retailers_data demo_env) (Some ''Corner Shop''))
     [Some 3, Some 0] None =
   Inr (fst (build_loop demo_env ''Bazaar'' ''Asha'' ''North'' ''asha@example.com'' ''Snacks''
               [Some 3, Some 0] ''0'' ''0'' 0 [chips, cola] demo_world),
        demo_world\<lparr>uuid_calls := 2, clock_calls := 2\<rparr>)"
proof -
  have "build_submission demo_env demo_world ''Bazaar'' ''Snacks''
     (update_salesperson_info (retailers_data demo_env) (Some ''Corner Shop''))
     [Some 3, Some 0] None =
     Inr (build_loop demo_env ''Bazaar'' ''Asha'' ''North'' ''asha@example.com'' ''Snacks''
               [Some 3, Some 0] ''0'' ''0'' 0 [chips, cola] demo_world)"
    by (simp only: build_submission_Inr [OF corner_shop_parsed no_geolocation] snacks_filtered)
  moreover have "snd (build_loop demo_env ''Bazaar'' ''Asha'' ''North'' ''asha@example.com''
               ''Snacks'' [Some 3, Some 0] ''0'' ''0'' 0 [chips, cola] demo_world) =
      demo_world\<lparr>uuid_calls := 2, clock_calls := 2\<rparr>"
    by (simp only: build_loop_world) (simp add: demo_world_def)
  ultimately show ?thesis
    by (metis prod.collapse)
qed

lemma not_found_unparsable:
  "\<exists>err. parse_salesperson_info (Text ''Retailer not found.'') = Inl err"
  by (simp add: parse_salesperson_info_def parse_field_def paragraph_text_def)

section \<open>The claims\<close>

text \<open>
  Claim C1.  For a draft, a list of quantities paired with products of a catalogue
  whose names are all different, \<^verbatim>\<open>update_total_amount\<close> returns for each line the
  amount of the line, the price of the line's product times its quantity, and as
  the category total the sum of these amounts, added in the order of the lines from
  0; both are printed with two decimals.  The program multiplies and adds doubles
  (the price and the quantity converted to floats), which is the first statement.
  For whole prices and quantities that are not negative, with prices, quantities
  and the sum of the amounts at most \<open>2 ^ 53\<close>, nothing is rounded: the amounts are
  the products and the total is their sum, which is the second.  The result depends
  on the quantities in the form only: edits of different lines, applied in any
  order, give the same result, which is the third.
\<close>

theorem recompute_totals:
  assumes "length ps = length quantities" and "set ps \<subseteq> set products"
    and "distinct (map p_name products)"
  shows
    "((\<forall>i<length ps. float_of_number (price_of (ps ! i)) = Inr (price i)
          \<and> float_of_int (entered (quantities ! i)) = Inr (quantity i)) \<longrightarrow>
        update_total_amount products quantities (map p_name ps) =
          Inr (map (\<lambda>i. rupee @ format_2f (float_mul (price i) (quantity i))) [0..<length ps],
               ''Total Value: '' @ rupee
                 @ format_2f (foldl float_add (Finite False 0)
                     (map (\<lambda>i. float_mul (price i) (quantity i)) [0..<length ps]))))
     \<and> ((\<forall>i<length ps. price_of (ps ! i) \<in> \<int> \<and> 0 \<le> price_of (ps ! i)
             \<and> price_of (ps ! i) \<le> 9007199254740992
             \<and> 0 \<le> entered (quantities ! i) \<and> entered (quantities ! i) \<le> 9007199254740992)
          \<and> (\<Sum>i\<leftarrow>[0..<length ps]. price_of (ps ! i) * of_int (entered (quantities ! i)))
              \<le> 9007199254740992 \<longrightarrow>
        update_total_amount products quantities (map p_name ps) =
          Inr (map (\<lambda>i. rupee @ format_2f
                     (Finite False (price_of (ps ! i) * of_int (entered (quantities ! i)))))
                 [0..<length ps],
               ''Total Value: '' @ rupee
                 @ format_2f (Finite False
                     (\<Sum>i\<leftarrow>[0..<length ps].
                        price_of (ps ! i) * of_int (entered (quantities ! i))))))
     \<and> (distinct (map fst edits) \<and> mset edits' = mset edits \<longrightarrow>
        update_total_amount products (apply_edits edits' quantities) (map p_name ps) =
          update_total_amount products (apply_edits edits quantities) (map p_name ps))"
proof (intro conjI impI)
  assume "\<forall>i<length ps. float_of_number (price_of (ps ! i)) = Inr (price i)
          \<and> float_of_int (entered (quantities ! i)) = Inr (quantity i)"
  with assms show "update_total_amount products quantities (map p_name ps) =
      Inr (map (\<lambda>i. rupee @ format_2f (float_mul (price i) (quantity i))) [0..<length ps],
           ''Total Value: '' @ rupee
             @ format_2f (foldl float_add (Finite False 0)
                 (map (\<lambda>i. float_mul (price i) (quantity i)) [0..<length ps])))"
    by (rule recompute_float)
next
  assume h: "(\<forall>i<length ps. price_of (ps ! i) \<in> \<int> \<and> 0 \<le> price_of (ps ! i)
             \<and> price_of (ps ! i) \<le> 9007199254740992
             \<and> 0 \<le> entered (quantities ! i) \<and> entered (quantities ! i) \<le> 9007199254740992)
          \<and> (\<Sum>i\<leftarrow>[0..<length ps]. price_of (ps ! i) * of_int (entered (quantities ! i)))
              \<le> 9007199254740992"
  from h have h1: "\<forall>i<length ps. price_of (ps ! i) \<in> \<int> \<and> 0 \<le> price_of (ps ! i)
             \<and> price_of (ps ! i) \<le> 9007199254740992
             \<and> 0 \<le> entered (quantities ! i) \<and> entered (quantities ! i) \<le> 9007199254740992"
    by (rule conjunct1)
  from h have h2: "(\<Sum>i\<leftarrow>[0..<length ps]. price_of (ps ! i) * of_int (entered (quantities ! i)))
              \<le> 9007199254740992"
    by (rule conjunct2)
  from assms h1 h2 show "update_total_amount products quantities (map p_name ps) =
      Inr (map (\<lambda>i. rupee @ format_2f
                 (Finite False (price_of (ps ! i) * of_int (entered (quantities ! i)))))
             [0..<length ps],
           ''Total Value: '' @ rupee
             @ format_2f (Finite False
                 (\<Sum>i\<leftarrow>[0..<length ps].
                    price_of (ps ! i) * of_int (entered (quantities ! i)))))"
    by (rule recompute_exact)
next
  assume "distinct (map fst edits) \<and> mset edits' = mset edits"
  then have "apply_edits edits' quantities = apply_edits edits quantities"
    by (blast intro: apply_edits_permuted)
  then show "update_total_amount products (apply_edits edits' quantities) (map p_name ps) =
      update_total_amount products (apply_edits edits quantities) (map p_name ps)"
    by simp
qed

theorem recompute_totals_witness:
  "update_total_amount [chips, soap, cola, toffee] [Some 3, Some 2] [''Chips'', ''Cola''] =
     Inr ([rupee @ ''60.00'', rupee @ ''30.00''], ''Total Value: '' @ rupee @ ''90.00'')
   \<and> update_total_amount [chips, soap, cola, toffee] [Some 3] [''Toffee''] =
     Inr ([rupee @ ''0.01''], ''Total Value: '' @ rupee @ ''0.01'')
   \<and> update_total_amount [chips, soap, cola, toffee]
        (apply_edits [(1, Some 2), (0, Some 3)] [None, None]) [''Chips'', ''Cola''] =
      update_total_amount [chips, soap, cola, toffee]
        (apply_edits [(0, Some 3), (1, Some 2)] [None, None]) [''Chips'', ''Cola'']"
proof -
  let ?P = "[chips, soap, cola, toffee]"
  have names: "distinct (map p_name ?P)"
    by (simp add: chips_def soap_def cola_def toffee_def)
  have n2: "[0..<length [chips, cola]] = [0, 1]" and n1: "[0..<length [toffee]] = [0]"
    by (simp_all add: upt_rec)
  have prices: "price_of chips = 20" "price_of cola = 15" "price_of toffee = 1 / 200"
    by (simp_all add: price_of_def chips_def cola_def toffee_def)
  have ids: "p_name chips = ''Chips''" "p_name cola = ''Cola''" "p_name toffee = ''Toffee''"
    by (simp_all add: chips_def cola_def toffee_def)
  \<comment> \<open>whole prices: nothing is rounded\<close>
  have a: "length [chips, cola] = length [Some (3::int), Some 2]" by simp
  have b: "set [chips, cola] \<subseteq> set ?P" by simp
  have whole: "(\<forall>i<length [chips, cola]. price_of ([chips, cola] ! i) \<in> \<int>
        \<and> 0 \<le> price_of ([chips, cola] ! i) \<and> price_of ([chips, cola] ! i) \<le> 9007199254740992
        \<and> 0 \<le> entered ([Some 3, Some 2] ! i) \<and> entered ([Some 3, Some 2] ! i) \<le> 9007199254740992)
      \<and> (\<Sum>i\<leftarrow>[0..<length [chips, cola]]. price_of ([chips, cola] ! i)
            * of_int (entered ([Some 3, Some 2] ! i))) \<le> 9007199254740992"
    by (simp add: n2 prices entered_def less_Suc_eq)
  from recompute_totals [OF a b names, THEN conjunct2, THEN conjunct1, rule_format, OF whole]
  have first: "update_total_amount ?P [Some 3, Some 2] [''Chips'', ''Cola''] =
     Inr ([rupee @ ''60.00'', rupee @ ''30.00''], ''Total Value: '' @ rupee @ ''90.00'')"
    by (simp add: n2 prices ids entered_def format_2f_60 format_2f_30 format_2f_90)
  \<comment> \<open>a price that is not a double: the amount is the rounded product\<close>
  have c: "length [toffee] = length [Some (3::int)]" by simp
  have d: "set [toffee] \<subseteq> set ?P" by simp
  have conv: "\<forall>i<length [toffee]. float_of_number (price_of ([toffee] ! i)) =
        Inr (Finite False (5764607523034235 / 1152921504606846976))
      \<and> float_of_int (entered ([Some 3] ! i)) = Inr (Finite False 3)"
    using float_of_int_exact [of 3]
    by (simp add: prices entered_def half_cent_float)
  from recompute_totals [OF c d names,
      where price = "\<lambda>i. Finite False (5764607523034235 / 1152921504606846976)"
        and quantity = "\<lambda>i. Finite False 3", THEN conjunct1, THEN mp, OF conv]
  have second: "update_total_amount ?P [Some 3] [''Toffee''] =
     Inr ([rupee @ ''0.01''], ''Total Value: '' @ rupee @ ''0.01'')"
    by (simp add: n1 ids three_half_cents three_half_cents_total format_three_half_cents)
  \<comment> \<open>two edits in either order\<close>
  have e: "length [chips, cola] = length [None::int option, None]" by simp
  have f: "distinct (map fst [(0::nat, Some (3::int)), (1, Some 2)])
      \<and> mset [(1::nat, Some (2::int)), (0, Some 3)] = mset [(0, Some 3), (1, Some 2)]"
    by (simp add: add.commute)
  from recompute_totals [OF e b names, THEN conjunct2, THEN conjunct2, rule_format, OF f]
  have third: "update_total_amount ?P
        (apply_edits [(1, Some 2), (0, Some 3)] [None, None]) [''Chips'', ''Cola''] =
      update_total_amount ?P
        (apply_edits [(0, Some 3), (1, Some 2)] [None, None]) [''Chips'', ''Cola'']"
    by (simp add: ids)
  from first second third show ?thesis
    by (intro conjI)
qed

text \<open>
  Claim C2.  When the button was clicked, the selected retailer is one of the
  catalogue (and the form shows what was rendered for it), a category is selected
  and the geolocation is absent or one pair, the build yields exactly one record per
  product of the selected category, in the order of the catalogue and whatever the
  quantities are; a record whose quantity is 0 has the amount 0; and when no call
  to the worksheet raises, these records are the rows the submission appends.
\<close>

theorem one_record_per_product:
  assumes "truthy_int n" and "name \<noteq> []"
    and "find (\<lambda>r. r_name r = name) (retailers_data e) = Some rt"
    and "truthy_str cat" and "parse_geolocation geo = Inr g"
  shows "\<exists>recs w1.
      build_submission e w name (the cat)
        (update_salesperson_info (retailers_data e) (Some name)) iv geo = Inr (recs, w1)
      \<and> map Product recs = map p_name (filtered_products (products_data e) (the cat))
      \<and> (\<forall>rec\<in>set recs. Quantity rec = 0 \<longrightarrow> Amount rec = 0)
      \<and> (\<not> worksheet_raises e \<and> (\<forall>k<length recs. \<not> append_raises e (append_calls w + k)) \<longrightarrow>
           submit_data e w n (Some name) cat
             (update_salesperson_info (retailers_data e) (Some name)) iv geo =
           ((msg_success (the cat) name, True),
            w1\<lparr>append_calls := append_calls w + length recs,
                sheet_rows := sheet_rows w @ recs\<rparr>))"
proof -
  let ?info = "update_salesperson_info (retailers_data e) (Some name)"
  from rendered_retailer_parses [OF assms(3,2)] obtain sp tm em where
    p: "parse_salesperson_info ?info = Inr (sp, tm, em)"
    by (metis prod_cases3)
  obtain lat lon where g: "g = (lat, lon)" by (cases g)
  obtain recs w1 where
    l: "build_loop e name sp tm em (the cat) iv lat lon 0
          (filtered_products (products_data e) (the cat)) w = (recs, w1)"
    by (cases "build_loop e name sp tm em (the cat) iv lat lon 0
          (filtered_products (products_data e) (the cat)) w")
  from build_submission_Inr [OF p assms(5) [unfolded g], of e w name "the cat" iv] l
  have b: "build_submission e w name (the cat) ?info iv geo = Inr (recs, w1)"
    by simp
  from assms(2) have t: "truthy_str (Some name)"
    by (simp add: truthy_str_def)
  have "submit_data e w n (Some name) cat ?info iv geo =
      ((msg_success (the cat) name, True),
       w1\<lparr>append_calls := append_calls w + length recs, sheet_rows := sheet_rows w @ recs\<rparr>)"
    if "\<not> worksheet_raises e" and "\<forall>k<length recs. \<not> append_raises e (append_calls w + k)"
    using submit_data_accepted [OF assms(1) t assms(4) _ that, of ?info iv geo w1] b
    by simp
  with b built_products [OF b] quantity_zero_amount [OF b] show ?thesis
    by blast
qed

theorem one_record_per_product_witness:
  "build_submission demo_env demo_world ''Corner Shop'' ''Snacks''
     (update_salesperson_info (retailers_data demo_env) (Some ''Corner Shop''))
     [Some 3, Some 0] None = Inr (demo_rows, demo_world\<lparr>uuid_calls := 2, clock_calls := 2\<rparr>)
   \<and> map Product demo_rows = [''Chips'', ''Cola'']
   \<and> Quantity (demo_rows ! 1) = 0 \<and> Amount (demo_rows ! 1) = 0
   \<and> sheet_rows (snd (submit_data demo_env demo_world (Some 1) (Some ''Corner Shop'')
        (Some ''Snacks'')
        (update_salesperson_info (retailers_data demo_env) (Some ''Corner Shop''))
        [Some 3, Some 0] None)) = demo_rows"
proof -
  have a: "truthy_int (Some 1)" by (simp add: truthy_int_def)
  have b: "''Corner Shop'' \<noteq> []" by simp
  have c: "find (\<lambda>r. r_name r = ''Corner Shop'') (retailers_data demo_env) = Some corner_shop"
    by (simp add: demo_env_def corner_shop_def)
  have d: "truthy_str (Some ''Snacks'')" by (simp add: truthy_str_def)
  from one_record_per_product [OF a b c d no_geolocation, of demo_world "[Some 3, Some 0]"]
  obtain recs w1 where
    r: "build_submission demo_env demo_world ''Corner Shop'' ''Snacks''
          (update_salesperson_info (retailers_data demo_env) (Some ''Corner Shop''))
          [Some 3, Some 0] None = Inr (recs, w1)" and
    p: "map Product recs = map p_name (filtered_products (products_data demo_env) ''Snacks'')" and
    z: "\<forall>rec\<in>set recs. Quantity rec = 0 \<longrightarrow> Amount rec = 0" and
    s: "\<not> worksheet_raises demo_env \<and>
        (\<forall>k<length recs. \<not> append_raises demo_env (append_calls demo_world + k)) \<longrightarrow>
        submit_data demo_env demo_world (Some 1) (Some ''Corner Shop'') (Some ''Snacks'')
          (update_salesperson_info (retailers_data demo_env) (Some ''Corner Shop''))
          [Some 3, Some 0] None =
        ((msg_success ''Snacks'' ''Corner Shop'', True),
         w1\<lparr>append_calls := append_calls demo_world + length recs,
             sheet_rows := sheet_rows demo_world @ recs\<rparr>)"
    by auto
  from r demo_built have recs: "recs = demo_rows" and w1: "w1 = demo_world\<lparr>uuid_calls := 2, clock_calls := 2\<rparr>"
    by simp_all
  have ok: "\<not> worksheet_raises demo_env \<and>
        (\<forall>k<length recs. \<not> append_raises demo_env (append_calls demo_world + k))"
    by (simp add: demo_env_def)
  have q: "Quantity (demo_rows ! 1) = 0" "demo_rows ! 1 \<in> set demo_rows"
    by (simp_all add: demo_rows_def)
  from z recs q have "Amount (demo_rows ! 1) = 0" by blast
  moreover from p recs have "map Product demo_rows = [''Chips'', ''Cola'']"
    by (simp add: snacks_filtered chips_def cola_def)
  moreover from s ok recs have "sheet_rows (snd (submit_data demo_env demo_world (Some 1)
        (Some ''Corner Shop'') (Some ''Snacks'')
        (update_salesperson_info (retailers_data demo_env) (Some ''Corner Shop''))
        [Some 3, Some 0] None)) = demo_rows"
    by (simp add: demo_world_def)
  ultimately show ?thesis
    using demo_built q(1) by simp
qed




text \<open>
  Claim C4, as the program has it.  After a successful submission (the dialog is
  displayed), all the rows it appended carry one latitude and one longitude, those
  parsed once from the geolocation before the loop.  The timestamps are not shared:
  the clock is read once for each record, inside the loop, so that the i-th row
  carries the i-th reading of the clock made by this submission.
\<close>

theorem one_place_many_timestamps:
  assumes "snd (fst (submit_data e w n ret cat info iv geo))"
  shows "\<exists>lat lon. parse_geolocation geo = Inr (lat, lon)
      \<and> (\<forall>rec\<in>set (new_rows w (snd (submit_data e w n ret cat info iv geo))).
            Latitude rec = lat \<and> Longitude rec = lon)
      \<and> map Timestamp (new_rows w (snd (submit_data e w n ret cat info iv geo))) =
          map (now_isoformat e)
            [clock_calls w..<
             clock_calls w + length (new_rows w (snd (submit_data e w n ret cat info iv geo)))]"
proof -
  from displayed_rows [OF assms] obtain w1 where
    b: "build_submission e w (the ret) (the cat) info iv geo =
          Inr (new_rows w (snd (submit_data e w n ret cat info iv geo)), w1)"
    by blast
  from built_place [OF b] built_timestamps [OF b] show ?thesis
    by blast
qed

theorem one_place_many_timestamps_witness:
  "snd (fst (submit_data demo_env demo_world (Some 1) (Some ''Corner Shop'') (Some ''Snacks'')
        (update_salesperson_info (retailers_data demo_env) (Some ''Corner Shop''))
        [Some 3, Some 0] None))
   \<and> map Latitude demo_rows = [''0'', ''0''] \<and> map Longitude demo_rows = [''0'', ''0'']
   \<and> map Timestamp (new_rows demo_world
        (snd (submit_data demo_env demo_world (Some 1) (Some ''Corner Shop'') (Some ''Snacks'')
          (update_salesperson_info (retailers_data demo_env) (Some ''Corner Shop''))
          [Some 3, Some 0] None))) = [demo_clock 0, demo_clock 1]"
proof -
  have d: "snd (fst (submit_data demo_env demo_world (Some 1) (Some ''Corner Shop'')
        (Some ''Snacks'')
        (update_salesperson_info (retailers_data demo_env) (Some ''Corner Shop''))
        [Some 3, Some 0] None))"
    by (simp only: demo_submitted) simp
  have n: "new_rows demo_world (snd (submit_data demo_env demo_world (Some 1)
        (Some ''Corner Shop'') (Some ''Snacks'')
        (update_salesperson_info (retailers_data demo_env) (Some ''Corner Shop''))
        [Some 3, Some 0] None)) = demo_rows"
    by (simp only: demo_submitted) (simp add: new_rows_def demo_world_def)
  have u: "[clock_calls demo_world..<clock_calls demo_world + length demo_rows] = [0, 1]"
    by (simp add: demo_world_def demo_rows_def upt_rec)
  from one_place_many_timestamps [OF d]
  have "map Timestamp demo_rows = map (now_isoformat demo_env) [0, 1]"
    by (simp only: n u) blast
  then have "map Timestamp demo_rows = [demo_clock 0, demo_clock 1]"
    by (simp add: demo_env_def)
  moreover have "map Latitude demo_rows = [''0'', ''0'']" "map Longitude demo_rows = [''0'', ''0'']"
    by (simp_all add: demo_rows_def)
  ultimately show ?thesis
    using d n by simp
qed

theorem shared_timestamp_counterexample:
  "snd (fst (submit_data demo_env demo_world (Some 1) (Some ''Corner Shop'') (Some ''Snacks'')
        (update_salesperson_info (retailers_data demo_env) (Some ''Corner Shop''))
        [Some 3, Some 0] None))
   \<and> map Timestamp (new_rows demo_world
        (snd (submit_data demo_env demo_world (Some 1) (Some ''Corner Shop'') (Some ''Snacks'')
          (update_salesperson_info (retailers_data demo_env) (Some ''Corner Shop''))
          [Some 3, Some 0] None))) =
      [''2024-01-01T10:00:00.1'', ''2024-01-01T10:00:00.11'']
   \<and> ''2024-01-01T10:00:00.1'' \<noteq> ''2024-01-01T10:00:00.11''"
  by (simp only: demo_submitted) (simp add: new_rows_def demo_world_def demo_rows_def)

text \<open>
  Claim C5, as the program has it.  The submission does not look the retailer up:
  it reads the salesperson, the team and the email from what the form displays.
  When no retailer or no category is selected, or the displayed salesperson
  information cannot be read (an exception, caught at line 230), as is the case
  when it is what \<^verbatim>\<open>update_salesperson_info\<close> renders for the submitted retailer and
  that retailer is not in the catalogue, the submission answers with an error text
  (the request to complete the fields, or the notice that an error occurred), does
  not display the confirmation, and leaves the world as it was: nothing is
  appended and \<^verbatim>\<open>append_row\<close> is not called.  A retailer that is not in the catalogue,
  submitted while the form displays the paragraphs of another retailer, is not
  refused, and the program does not test that the salesperson name, team and email
  are not empty.
\<close>

theorem refused_submission_appends_nothing:
  assumes "\<not> truthy_str ret \<or> \<not> truthy_str cat
           \<or> (\<exists>err. parse_salesperson_info info = Inl err)
           \<or> (info = update_salesperson_info (retailers_data e) ret
               \<and> find (\<lambda>r. r_name r = the ret) (retailers_data e) = None)"
  shows "submit_data e w n ret cat info iv geo =
     ((if \<not> truthy_int n \<or> \<not> truthy_str ret \<or> \<not> truthy_str cat
       then msg_incomplete else msg_error, False), w)"
proof (cases "\<not> truthy_int n \<or> \<not> truthy_str ret \<or> \<not> truthy_str cat")
  case True
  from submit_data_refused [OF True] True show ?thesis
    by simp
next
  case False
  with assms unknown_retailer_raises [of ret "retailers_data e"]
  obtain err where "parse_salesperson_info info = Inl err"
    by blast
  with False submit_data_raised [of n ret cat info err e w iv geo] show ?thesis
    by simp
qed

theorem refused_submission_appends_nothing_witness:
  "find (\<lambda>r. r_name r = the (Some ''Bazaar'')) (retailers_data demo_env) = None
   \<and> submit_data demo_env demo_world (Some 1) (Some ''Bazaar'') (Some ''Snacks'')
       (update_salesperson_info (retailers_data demo_env) (Some ''Bazaar'')) [Some 3, Some 0] None =
     ((msg_error, False), demo_world)
   \<and> submit_data demo_env demo_world (Some 1) None (Some ''Snacks'')
       (update_salesperson_info (retailers_data demo_env) (Some ''Corner Shop''))
       [Some 3, Some 0] None =
     ((msg_incomplete, False), demo_world)
   \<and> submit_data demo_env demo_world (Some 1) (Some ''Corner Shop'') (Some ''Snacks'')
       (Text ''Retailer not found.'') [Some 3, Some 0] None =
     ((msg_error, False), demo_world)"
proof -
  have a: "find (\<lambda>r. r_name r = the (Some ''Bazaar'')) (retailers_data demo_env) = None"
    by (simp add: demo_env_def corner_shop_def kiosk_def)
  then have a': "\<not> truthy_str (Some ''Bazaar'') \<or> \<not> truthy_str (Some ''Snacks'')
      \<or> (\<exists>err. parse_salesperson_info
            (update_salesperson_info (retailers_data demo_env) (Some ''Bazaar'')) = Inl err)
      \<or> (update_salesperson_info (retailers_data demo_env) (Some ''Bazaar'') =
            update_salesperson_info (retailers_data demo_env) (Some ''Bazaar'')
          \<and> find (\<lambda>r. r_name r = the (Some ''Bazaar'')) (retailers_data demo_env) = None)"
    by blast
  have b: "\<not> truthy_str None \<or> \<not> truthy_str (Some ''Snacks'')
      \<or> (\<exists>err. parse_salesperson_info
            (update_salesperson_info (retailers_data demo_env) (Some ''Corner Shop'')) = Inl err)
      \<or> (update_salesperson_info (retailers_data demo_env) (Some ''Corner Shop'') =
            update_salesperson_info (retailers_data demo_env) None
          \<and> find (\<lambda>r. r_name r = the None) (retailers_data demo_env) = None)"
    by (simp add: truthy_str_def)
  from not_found_unparsable
  have c: "\<not> truthy_str (Some ''Corner Shop'') \<or> \<not> truthy_str (Some ''Snacks'')
      \<or> (\<exists>err. parse_salesperson_info (Text ''Retailer not found.'') = Inl err)
      \<or> (Text ''Retailer not found.'' =
            update_salesperson_info (retailers_data demo_env) (Some ''Corner Shop'')
          \<and> find (\<lambda>r. r_name r = the (Some ''Corner Shop'')) (retailers_data demo_env) = None)"
    by blast
  have t: "truthy_int (Some 1)" "truthy_str (Some ''Bazaar'')" "truthy_str (Some ''Snacks'')"
      "\<not> truthy_str None" "truthy_str (Some ''Corner Shop'')"
    by (simp_all add: truthy_int_def truthy_str_def)
  from refused_submission_appends_nothing [OF a', of demo_world "Some 1" "[Some 3, Some 0]" None]
  have r1: "submit_data demo_env demo_world (Some 1) (Some ''Bazaar'') (Some ''Snacks'')
       (update_salesperson_info (retailers_data demo_env) (Some ''Bazaar'')) [Some 3, Some 0] None =
     ((msg_error, False), demo_world)"
    by (simp only: t simp_thms if_False)
  from refused_submission_appends_nothing [OF b, of demo_world "Some 1" "[Some 3, Some 0]" None]
  have r2: "submit_data demo_env demo_world (Some 1) None (Some ''Snacks'')
       (update_salesperson_info (retailers_data demo_env) (Some ''Corner Shop''))
       [Some 3, Some 0] None =
     ((msg_incomplete, False), demo_world)"
    by (simp only: t simp_thms if_True)
  from refused_submission_appends_nothing [OF c, of demo_world "Some 1" "[Some 3, Some 0]" None]
  have r3: "submit_data demo_env demo_world (Some 1) (Some ''Corner Shop'') (Some ''Snacks'')
       (Text ''Retailer not found.'') [Some 3, Some 0] None =
     ((msg_error, False), demo_world)"
    by (simp only: t simp_thms if_False)
  from a r1 r2 r3 show ?thesis
    by (intro conjI)
qed

theorem unresolved_retailer_counterexample:
  "find (\<lambda>r. r_name r = ''Bazaar'') (retailers_data demo_env) = None
   \<and> snd (fst (submit_data demo_env demo_world (Some 1) (Some ''Bazaar'') (Some ''Snacks'')
        (update_salesperson_info (retailers_data demo_env) (Some ''Corner Shop''))
        [Some 3, Some 0] None))
   \<and> map Retailer (sheet_rows (snd (submit_data demo_env demo_world (Some 1) (Some ''Bazaar'')
        (Some ''Snacks'') (update_salesperson_info (retailers_data demo_env) (Some ''Corner Shop''))
        [Some 3, Some 0] None))) = [''Bazaar'', ''Bazaar'']
   \<and> r_salesperson kiosk = []
   \<and> update_salesperson_info (retailers_data demo_env) (Some ''Kiosk'') =
       Elems [bust @ '' Salesperson: '', loudspeaker @ '' Team: South'',
              envelope @ '' Email: south@example.com'']
   \<and> snd (fst (submit_data demo_env demo_world (Some 1) (Some ''Kiosk'') (Some ''Snacks'')
        (update_salesperson_info (retailers_data demo_env) (Some ''Kiosk''))
        [Some 3, Some 0] None))
   \<and> map Salesperson (sheet_rows (snd (submit_data demo_env demo_world (Some 1) (Some ''Kiosk'')
        (Some ''Snacks'') (update_salesperson_info (retailers_data demo_env) (Some ''Kiosk''))
        [Some 3, Some 0] None))) = [[], []]"
proof -
  have f: "find (\<lambda>r. r_name r = ''Bazaar'') (retailers_data demo_env) = None"
    by (simp add: demo_env_def corner_shop_def kiosk_def)
  have i: "update_salesperson_info (retailers_data demo_env) (Some ''Kiosk'') =
       Elems [bust @ '' Salesperson: '', loudspeaker @ '' Team: South'',
              envelope @ '' Email: south@example.com'']"
    by (simp add: update_salesperson_info_def demo_env_def truthy_str_def corner_shop_def
        kiosk_def)
  have t: "truthy_int (Some 1)" "truthy_str (Some ''Kiosk'')" "truthy_str (Some ''Snacks'')"
      "truthy_str (Some ''Bazaar'')"
    by (simp_all add: truthy_int_def truthy_str_def)
  have w: "\<not> worksheet_raises demo_env"
    by (simp add: demo_env_def)
  have ok: "\<forall>k<length (fst (build_loop demo_env ''Kiosk'' []
      ''South'' ''south@example.com'' ''Snacks'' [Some 3, Some 0] ''0'' ''0'' 0 [chips, cola]
      demo_world)). \<not> append_raises demo_env (append_calls demo_world + k)"
    by (simp add: demo_env_def)
  have ok': "\<forall>k<length (fst (build_loop demo_env ''Bazaar'' ''Asha''
      ''North'' ''asha@example.com'' ''Snacks'' [Some 3, Some 0] ''0'' ''0'' 0 [chips, cola]
      demo_world)). \<not> append_raises demo_env (append_calls demo_world + k)"
    by (simp add: demo_env_def)
  have b: "build_submission demo_env demo_world (the (Some ''Kiosk'')) (the (Some ''Snacks''))
     (update_salesperson_info (retailers_data demo_env) (Some ''Kiosk''))
     [Some 3, Some 0] None =
   Inr (fst (build_loop demo_env ''Kiosk'' [] ''South'' ''south@example.com'' ''Snacks''
               [Some 3, Some 0] ''0'' ''0'' 0 [chips, cola] demo_world),
        demo_world\<lparr>uuid_calls := 2, clock_calls := 2\<rparr>)"
    using kiosk_built by simp
  have b': "build_submission demo_env demo_world (the (Some ''Bazaar'')) (the (Some ''Snacks''))
     (update_salesperson_info (retailers_data demo_env) (Some ''Corner Shop''))
     [Some 3, Some 0] None =
   Inr (fst (build_loop demo_env ''Bazaar'' ''Asha'' ''North'' ''asha@example.com'' ''Snacks''
               [Some 3, Some 0] ''0'' ''0'' 0 [chips, cola] demo_world),
        demo_world\<lparr>uuid_calls := 2, clock_calls := 2\<rparr>)"
    using bazaar_built by simp
  have s: "map Salesperson (fst (build_loop demo_env ''Kiosk'' [] ''South'' ''south@example.com''
      ''Snacks'' [Some 3, Some 0] ''0'' ''0'' 0 [chips, cola] demo_world)) = [[], []]"
    by (simp add: Let_def case_prod_beta)
  have s': "map Retailer (fst (build_loop demo_env ''Bazaar'' ''Asha'' ''North''
      ''asha@example.com'' ''Snacks'' [Some 3, Some 0] ''0'' ''0'' 0 [chips, cola] demo_world)) =
      [''Bazaar'', ''Bazaar'']"
    by (simp add: Let_def case_prod_beta)
  from submit_data_accepted [OF t(1,2,3) b w ok] s
  have k1: "snd (fst (submit_data demo_env demo_world (Some 1) (Some ''Kiosk'') (Some ''Snacks'')
        (update_salesperson_info (retailers_data demo_env) (Some ''Kiosk''))
        [Some 3, Some 0] None))"
    and k2: "map Salesperson (sheet_rows (snd (submit_data demo_env demo_world (Some 1)
        (Some ''Kiosk'') (Some ''Snacks'')
        (update_salesperson_info (retailers_data demo_env) (Some ''Kiosk''))
        [Some 3, Some 0] None))) = [[], []]"
    by (simp_all add: demo_world_def)
  from submit_data_accepted [OF t(1,4,3) b' w ok'] s'
  have z1: "snd (fst (submit_data demo_env demo_world (Some 1) (Some ''Bazaar'') (Some ''Snacks'')
        (update_salesperson_info (retailers_data demo_env) (Some ''Corner Shop''))
        [Some 3, Some 0] None))"
    and z2: "map Retailer (sheet_rows (snd (submit_data demo_env demo_world (Some 1)
        (Some ''Bazaar'') (Some ''Snacks'')
        (update_salesperson_info (retailers_data demo_env) (Some ''Corner Shop''))
        [Some 3, Some 0] None))) = [''Bazaar'', ''Bazaar'']"
    by (simp_all add: demo_world_def)
  have e: "r_salesperson kiosk = []"
    by (simp add: kiosk_def)
  from f z1 z2 e i k1 k2 show ?thesis
    by (intro conjI)
qed

text \<open>
  Claim C6, as the program has it.  A blank quantity (\<open>None\<close>) gives exactly the
  result that the quantity 0 gives, for every line of every draft.  A number that
  reaches the function is multiplied as it is, a negative one too: the amount of a
  line is the price found for its product times the number entered.
\<close>

theorem blank_quantity_is_zero:
  "update_total_amount P (qs[i := None]) ids = update_total_amount P (qs[i := Some 0]) ids
   \<and> line_amount P (Some q) pid =
       (case find (\<lambda>p. p_name p = pid) P of
          None \<Rightarrow> Inr (Finite False 0)
        | Some product_info \<Rightarrow>
            (case float_price product_info of
               Inl e \<Rightarrow> Inl e
             | Inr price \<Rightarrow>
                 (case float_of_int q of
                    Inl e \<Rightarrow> Inl e
                  | Inr fq \<Rightarrow> Inr (float_mul price fq))))"
  by (simp add: update_total_amount_def total_loop_blank line_amount_def entered_def)

theorem negative_quantity_counterexample:
  "update_total_amount [chips, soap, cola] [Some (- 1), Some 0] [''Chips'', ''Cola''] =
     Inr ([rupee @ ''-20.00'', rupee @ ''0.00''], ''Total Value: '' @ rupee @ ''-20.00'')
   \<and> update_total_amount [chips, soap, cola] [Some 0, Some 0] [''Chips'', ''Cola''] =
     Inr ([rupee @ ''0.00'', rupee @ ''0.00''], ''Total Value: '' @ rupee @ ''0.00'')
   \<and> update_total_amount [chips, soap, cola] [Some (- 1), Some 0] [''Chips'', ''Cola''] \<noteq>
     update_total_amount [chips, soap, cola] [Some 0, Some 0] [''Chips'', ''Cola'']"
proof -
  have a: "update_total_amount [chips, soap, cola] [Some (- 1), Some 0] [''Chips'', ''Cola''] =
     Inr ([rupee @ ''-20.00'', rupee @ ''0.00''], ''Total Value: '' @ rupee @ ''-20.00'')"
    using update_total_amount_eq [of "[''Chips'', ''Cola'']" "[Some (- 1), Some 0]"
        "[Finite True 20, Finite False 0]" "[chips, soap, cola]"]
    by (simp add: chips_amount less_Suc_eq minus_20_total format_2f_minus_20 format_2f_zero)
  have b: "update_total_amount [chips, soap, cola] [Some 0, Some 0] [''Chips'', ''Cola''] =
     Inr ([rupee @ ''0.00'', rupee @ ''0.00''], ''Total Value: '' @ rupee @ ''0.00'')"
    using update_total_amount_eq [of "[''Chips'', ''Cola'']" "[Some 0, Some 0]"
        "[Finite False 0, Finite False 0]" "[chips, soap, cola]"]
    by (simp add: chips_amount less_Suc_eq minus_20_total format_2f_zero)
  show ?thesis
    by (simp only: a b) simp
qed

text \<open>
  Claim C7.  Each record built receives its own draw of the identifier generator:
  the i-th record of a build carries the i-th identifier drawn by that build.  When
  the generator never repeats a value, the identifiers of the records of one build
  are pairwise distinct, and no record of a later build (one that starts after the
  draws of the first) shares an identifier with a record of the first.
\<close>

theorem fresh_unique_ids:
  assumes "inj (uuid4 e)"
    and "build_submission e w r c info iv geo = Inr (recs, w1)"
    and "build_submission e w2 r' c' info' iv' geo' = Inr (recs', w3)"
    and "uuid_calls w1 \<le> uuid_calls w2"
  shows "map Unique_ID recs = map (uuid4 e) [uuid_calls w..<uuid_calls w + length recs]
       \<and> distinct (map Unique_ID (recs @ recs'))"
proof -
  let ?a = "[uuid_calls w..<uuid_calls w + length recs]"
  let ?b = "[uuid_calls w2..<uuid_calls w2 + length recs']"
  from built_world [OF assms(2)] have "uuid_calls w1 = uuid_calls w + length recs"
    by simp
  with assms(4) have "set ?a \<inter> set ?b = {}"
    by auto
  then have "distinct (?a @ ?b)"
    by simp
  moreover from assms(1) have "inj_on (uuid4 e) (set (?a @ ?b))"
    by (rule inj_on_subset) simp
  ultimately have "distinct (map (uuid4 e) (?a @ ?b))"
    using distinct_map by blast
  with built_ids [OF assms(2)] built_ids [OF assms(3)] show ?thesis
    by simp
qed

theorem fresh_unique_ids_witness:
  "inj (uuid4 demo_env)
   \<and> build_submission demo_env demo_world ''Corner Shop'' ''Snacks''
       (update_salesperson_info (retailers_data demo_env) (Some ''Corner Shop''))
       [Some 3, Some 0] None = Inr (demo_rows, demo_world\<lparr>uuid_calls := 2, clock_calls := 2\<rparr>)
   \<and> map Unique_ID demo_rows = [''u'', ''uu'']
   \<and> (case build_submission demo_env (demo_world\<lparr>uuid_calls := 2, clock_calls := 2\<rparr>)
            ''Corner Shop'' ''Snacks''
            (update_salesperson_info (retailers_data demo_env) (Some ''Corner Shop''))
            [Some 3, Some 0] None of
         Inl err \<Rightarrow> False
       | Inr (recs', w3) \<Rightarrow> length recs' = 2 \<and> distinct (map Unique_ID (demo_rows @ recs')))"
proof -
  have i: "inj (uuid4 demo_env)"
    using demo_uuid_inj by (simp add: demo_env_def)
  let ?w = "demo_world\<lparr>uuid_calls := 2, clock_calls := 2\<rparr>"
  obtain recs' w3 where
    l: "build_loop demo_env ''Corner Shop'' ''Asha'' ''North'' ''asha@example.com'' ''Snacks''
          [Some 3, Some 0] ''0'' ''0'' 0 (filtered_products (products_data demo_env) ''Snacks'') ?w =
        (recs', w3)"
    by (cases "build_loop demo_env ''Corner Shop'' ''Asha'' ''North'' ''asha@example.com''
          ''Snacks'' [Some 3, Some 0] ''0'' ''0'' 0
          (filtered_products (products_data demo_env) ''Snacks'') ?w")
  from build_submission_Inr [OF corner_shop_parsed no_geolocation,
      of demo_env ?w "''Corner Shop''" "''Snacks''" "[Some 3, Some 0]"] l
  have b2: "build_submission demo_env ?w ''Corner Shop'' ''Snacks''
      (update_salesperson_info (retailers_data demo_env) (Some ''Corner Shop''))
      [Some 3, Some 0] None = Inr (recs', w3)"
    by simp
  have le: "uuid_calls ?w \<le> uuid_calls ?w" by simp
  from fresh_unique_ids [OF i demo_built b2 le]
  have "distinct (map Unique_ID (demo_rows @ recs'))"
    by (rule conjunct2)
  moreover have "length recs' = 2"
    using built_length [OF b2] by (simp add: snacks_filtered)
  moreover have "map Unique_ID demo_rows = [''u'', ''uu'']"
    by (simp add: demo_rows_def)
  ultimately show ?thesis
    using i demo_built b2 by simp
qed

text \<open>
  Claim C8.  When the records were built and the call of \<^verbatim>\<open>append_row\<close> for the record
  at position \<open>j\<close> is the first that raises, the submission answers with the error
  text and does not display the confirmation; \<^verbatim>\<open>append_row\<close> was called \<open>j + 1\<close> times,
  the raising call being the last (no call is repeated, no later record is sent);
  and the worksheet holds its former rows, unchanged, followed by the first \<open>j\<close>
  records.
\<close>

theorem append_failure_is_reported:
  assumes "truthy_int n" and "truthy_str ret" and "truthy_str cat"
    and "build_submission e w (the ret) (the cat) info iv geo = Inr (recs, w1)"
    and "\<not> worksheet_raises e"
    and "j < length recs"
    and "append_raises e (append_calls w + j)"
    and "\<forall>k<j. \<not> append_raises e (append_calls w + k)"
  shows "submit_data e w n ret cat info iv geo =
     ((msg_error, False),
      w1\<lparr>append_calls := append_calls w + Suc j, sheet_rows := sheet_rows w @ take j recs\<rparr>)"
proof -
  from built_world [OF assms(4)] have same: "append_calls w1 = append_calls w"
      "sheet_rows w1 = sheet_rows w"
    by simp_all
  from assms(7,8) same have "append_raises e (append_calls w1 + j)"
      "\<forall>k<j. \<not> append_raises e (append_calls w1 + k)"
    by simp_all
  from append_loop_raises [OF assms(6) this] assms(1-5) same show ?thesis
    by (simp add: submit_data_tried try_submit_def)
qed

theorem append_failure_is_reported_witness:
  "build_submission failing_env demo_world ''Corner Shop'' ''Snacks''
     (update_salesperson_info (retailers_data failing_env) (Some ''Corner Shop''))
     [Some 3, Some 2] (Some ''12.5,77.1'') =
     Inr (failing_rows, demo_world\<lparr>uuid_calls := 2, clock_calls := 2\<rparr>)
   \<and> append_raises failing_env 1 \<and> \<not> append_raises failing_env 0
   \<and> submit_data failing_env demo_world (Some 1) (Some ''Corner Shop'') (Some ''Snacks'')
       (update_salesperson_info (retailers_data failing_env) (Some ''Corner Shop''))
       [Some 3, Some 2] (Some ''12.5,77.1'') =
     ((msg_error, False),
      \<lparr>uuid_calls = 2, clock_calls = 2, append_calls = 2, sheet_rows = [failing_rows ! 0]\<rparr>)"
proof -
  have t: "truthy_int (Some 1)" "truthy_str (Some ''Corner Shop'')" "truthy_str (Some ''Snacks'')"
    by (simp_all add: truthy_int_def truthy_str_def)
  have b: "build_submission failing_env demo_world (the (Some ''Corner Shop''))
      (the (Some ''Snacks''))
      (update_salesperson_info (retailers_data failing_env) (Some ''Corner Shop''))
      [Some 3, Some 2] (Some ''12.5,77.1'') =
      Inr (failing_rows, demo_world\<lparr>uuid_calls := 2, clock_calls := 2\<rparr>)"
    using failing_built by simp
  have w: "\<not> worksheet_raises failing_env" by (simp add: failing_env_def)
  have j: "1 < length failing_rows" by (simp add: failing_rows_def)
  have r: "append_raises failing_env (append_calls demo_world + 1)"
    by (simp add: failing_env_def demo_world_def)
  have f: "\<forall>k<1. \<not> append_raises failing_env (append_calls demo_world + k)"
    by (simp add: failing_env_def demo_world_def)
  have r0: "append_raises failing_env 1" "\<not> append_raises failing_env 0"
    by (simp_all add: failing_env_def)
  have tk: "take (Suc 0) failing_rows = [failing_rows ! 0]"
    by (simp add: failing_rows_def)
  from append_failure_is_reported [OF t b w j r f]
  have "submit_data failing_env demo_world (Some 1) (Some ''Corner Shop'') (Some ''Snacks'')
       (update_salesperson_info (retailers_data failing_env) (Some ''Corner Shop''))
       [Some 3, Some 2] (Some ''12.5,77.1'') =
     ((msg_error, False),
      \<lparr>uuid_calls = 2, clock_calls = 2, append_calls = 2, sheet_rows = [failing_rows ! 0]\<rparr>)"
    by (simp add: tk demo_world_def)
  with failing_built r0 show ?thesis
    by simp
qed

text \<open>
  Claim C9.  When the geolocation is absent (\<open>None\<close>, or the empty string), every
  row that a submission appends to the worksheet has the latitude \<open>"0"\<close> and the
  longitude \<open>"0"\<close>.
\<close>

theorem absent_geolocation_is_zero:
  assumes "\<not> truthy_str geo"
  shows "\<forall>rec\<in>set (new_rows w (snd (submit_data e w n ret cat info iv geo))).
           Latitude rec = ''0'' \<and> Longitude rec = ''0''"
proof
  fix rec
  assume rec: "rec \<in> set (new_rows w (snd (submit_data e w n ret cat info iv geo)))"
  with submit_data_rows [of w e n ret cat info iv geo] obtain recs w1 k where
    b: "build_submission e w (the ret) (the cat) info iv geo = Inr (recs, w1)" and
    t: "new_rows w (snd (submit_data e w n ret cat info iv geo)) = take k recs"
    by auto
  from rec t have "rec \<in> set recs"
    by (auto dest: in_set_takeD)
  moreover from assms have "parse_geolocation geo = Inr (''0'', ''0'')"
    by (simp add: parse_geolocation_def)
  ultimately show "Latitude rec = ''0'' \<and> Longitude rec = ''0''"
    using built_place [OF b] by auto
qed

theorem absent_geolocation_is_zero_witness:
  "\<not> truthy_str None
   \<and> new_rows demo_world (snd (submit_data demo_env demo_world (Some 1) (Some ''Corner Shop'')
        (Some ''Snacks'')
        (update_salesperson_info (retailers_data demo_env) (Some ''Corner Shop''))
        [Some 3, Some 0] None)) = demo_rows
   \<and> Latitude (demo_rows ! 0) = ''0'' \<and> Longitude (demo_rows ! 0) = ''0''
   \<and> Latitude (demo_rows ! 1) = ''0'' \<and> Longitude (demo_rows ! 1) = ''0''"
proof -
  have a: "\<not> truthy_str None" by (simp add: truthy_str_def)
  have n: "new_rows demo_world (snd (submit_data demo_env demo_world (Some 1) (Some ''Corner Shop'')
        (Some ''Snacks'')
        (update_salesperson_info (retailers_data demo_env) (Some ''Corner Shop''))
        [Some 3, Some 0] None)) = demo_rows"
    by (simp only: demo_submitted) (simp add: new_rows_def demo_world_def)
  have m: "demo_rows ! 0 \<in> set demo_rows" "demo_rows ! 1 \<in> set demo_rows"
    by (simp_all add: demo_rows_def)
  from absent_geolocation_is_zero [OF a, of demo_world demo_env "Some 1" "Some ''Corner Shop''"
      "Some ''Snacks''" "update_salesperson_info (retailers_data demo_env) (Some ''Corner Shop'')"
      "[Some 3, Some 0]"] n m
  have "Latitude (demo_rows ! 0) = ''0'' \<and> Longitude (demo_rows ! 0) = ''0''"
    and "Latitude (demo_rows ! 1) = ''0'' \<and> Longitude (demo_rows ! 1) = ''0''"
    by auto
  with a n show ?thesis by simp
qed

text \<open>
  Claim C10.  Whenever the salesperson fields and the geolocation parse, the build
  yields one record per product of the category, whatever the list of entered
  values is: the quantities are paired to the products by position, and a product
  whose position is beyond the end of the list, or holds \<open>None\<close>, is recorded with
  the quantity 0.
\<close>

theorem short_input_gives_zero:
  assumes "parse_salesperson_info info = Inr s" and "parse_geolocation geo = Inr g"
  shows "\<exists>recs w1.
      build_submission e w r c info iv geo = Inr (recs, w1)
      \<and> map Product recs = map p_name (filtered_products (products_data e) c)
      \<and> map Quantity recs =
          map (\<lambda>i. if i < length iv then (case iv ! i of None \<Rightarrow> 0 | Some q \<Rightarrow> q) else 0)
            [0..<length (filtered_products (products_data e) c)]"
proof -
  obtain sp tm em where s: "s = (sp, tm, em)" by (cases s)
  obtain lat lon where g: "g = (lat, lon)" by (cases g)
  obtain recs w1 where
    l: "build_loop e r sp tm em c iv lat lon 0 (filtered_products (products_data e) c) w =
          (recs, w1)"
    by (cases "build_loop e r sp tm em c iv lat lon 0 (filtered_products (products_data e) c) w")
  from build_submission_Inr [OF assms(1) [unfolded s] assms(2) [unfolded g], of e w r c iv] l
  have b: "build_submission e w r c info iv geo = Inr (recs, w1)"
    by simp
  have "map Quantity recs =
      map (\<lambda>i. if i < length iv then (case iv ! i of None \<Rightarrow> 0 | Some q \<Rightarrow> q) else 0)
        [0..<length (filtered_products (products_data e) c)]"
  proof (rule nth_equalityI)
    show "length (map Quantity recs) =
        length (map (\<lambda>i. if i < length iv then (case iv ! i of None \<Rightarrow> 0 | Some q \<Rightarrow> q) else 0)
          [0..<length (filtered_products (products_data e) c)])"
      using built_length [OF b] by simp
  next
    fix i
    assume "i < length (map Quantity recs)"
    then have i: "i < length recs" by simp
    with built_nth [OF b i] built_length [OF b]
    show "map Quantity recs ! i =
        map (\<lambda>i. if i < length iv then (case iv ! i of None \<Rightarrow> 0 | Some q \<Rightarrow> q) else 0)
          [0..<length (filtered_products (products_data e) c)] ! i"
      by (simp add: quantity_at_eq)
  qed
  with b built_products [OF b] show ?thesis
    by blast
qed

theorem short_input_gives_zero_witness:
  "build_submission demo_env demo_world ''Corner Shop'' ''Snacks''
      (update_salesperson_info (retailers_data demo_env) (Some ''Corner Shop''))
      [None] (Some ''12.5,77.1'') \<noteq> Inl IndexError
   \<and> (case build_submission demo_env demo_world ''Corner Shop'' ''Snacks''
            (update_salesperson_info (retailers_data demo_env) (Some ''Corner Shop''))
            [None] (Some ''12.5,77.1'') of
         Inl err \<Rightarrow> False
       | Inr (recs, w1) \<Rightarrow> map Product recs = [''Chips'', ''Cola''] \<and> map Quantity recs = [0, 0])"
proof -
  from short_input_gives_zero [OF corner_shop_parsed some_geolocation,
      of demo_env demo_world "''Corner Shop''" "''Snacks''" "[None]"]
  obtain recs w1 where
    b: "build_submission demo_env demo_world ''Corner Shop'' ''Snacks''
          (update_salesperson_info (retailers_data demo_env) (Some ''Corner Shop''))
          [None] (Some ''12.5,77.1'') = Inr (recs, w1)" and
    p: "map Product recs = map p_name (filtered_products (products_data demo_env) ''Snacks'')" and
    q: "map Quantity recs =
          map (\<lambda>i. if i < length [None::int option]
                    then (case [None] ! i of None \<Rightarrow> 0 | Some q \<Rightarrow> q) else 0)
            [0..<length (filtered_products (products_data demo_env) ''Snacks'')]"
    by blast
  from p have "map Product recs = [''Chips'', ''Cola'']"
    by (simp add: snacks_filtered chips_def cola_def)
  moreover have "[0..<length [chips, cola]] = [0, 1]"
    by (simp add: upt_rec)
  with q have "map Quantity recs = [0, 0]"
    by (simp add: snacks_filtered)
  ultimately show ?thesis
    using b by simp
qed

end
